theory Spec2Isabelle
  imports Complex_Main
begin

section \<open>JavaScript values\<close>

text \<open>
  The component \<^verbatim>\<open>upcomingPayments.js\<close> works on the JSON-like values that the wire
  adapter delivers. They are embedded as a datatype of JavaScript values.

  \<^item> A string is a \<^typ>\<open>string\<close>; characters outside ASCII are held in UTF-8.
  \<^item> A number is \<open>NaN\<close>, an infinity or a finite value. A finite value is held as the
    exact rational it denotes; the two zeros are one value, and the rounding of a parsed
    literal to the nearest double is not part of the model (it never turns a number into
    \<open>NaN\<close> or back).
  \<^item> An object is the list of its own data properties, as JSON deserialisation yields them.
    Keys that would shadow members of \<^verbatim>\<open>Object.prototype\<close> are not modelled.
\<close>

datatype jsnum = NaN | PosInf | NegInf | Fin rat

datatype jsval =
    JUndefined
  | JNull
  | JBool bool
  | JNum jsnum
  | JStr string
  | JArr "jsval list"
  | JObj "(string \<times> jsval) list"

datatype exn = TypeError | RangeError

subsection \<open>Truthiness, \<^verbatim>\<open>||\<close>, \<^verbatim>\<open>===\<close> against a string, \<^verbatim>\<open>Array.isArray\<close>\<close>

fun truthy :: "jsval \<Rightarrow> bool" where
  "truthy JUndefined = False"
| "truthy JNull = False"
| "truthy (JBool b) = b"
| "truthy (JNum n) = (n \<noteq> NaN \<and> n \<noteq> Fin 0)"
| "truthy (JStr s) = (s \<noteq> [])"
| "truthy (JArr xs) = True"
| "truthy (JObj kvs) = True"

definition js_or :: "jsval \<Rightarrow> jsval \<Rightarrow> jsval" where
  "js_or a b = (if truthy a then a else b)"

definition isArray :: "jsval \<Rightarrow> bool" where
  "isArray v = (case v of JArr xs \<Rightarrow> True | _ \<Rightarrow> False)"

subsection \<open>Property access\<close>

text \<open>
  \<^verbatim>\<open>v.name\<close> throws a \<^verbatim>\<open>TypeError\<close> when \<open>v\<close> is \<^verbatim>\<open>undefined\<close> or \<^verbatim>\<open>null\<close>. On an
  object it yields the own property or \<^verbatim>\<open>undefined\<close>. The component reads only names
  that no prototype of a primitive or of an array defines (never \<^verbatim>\<open>length\<close> or an
  index), so on every other value the read yields \<^verbatim>\<open>undefined\<close>.
\<close>

fun own :: "jsval \<Rightarrow> string \<Rightarrow> jsval" where
  "own (JObj kvs) k = (case map_of kvs k of Some v \<Rightarrow> v | None \<Rightarrow> JUndefined)"
| "own _ k = JUndefined"

fun get_prop :: "jsval \<Rightarrow> string \<Rightarrow> exn + jsval" where
  "get_prop JUndefined k = Inl TypeError"
| "get_prop JNull k = Inl TypeError"
| "get_prop v k = Inr (own v k)"

text \<open>Optional chaining \<^verbatim>\<open>v?.name\<close> never throws.\<close>

fun opt_prop :: "jsval \<Rightarrow> string \<Rightarrow> jsval" where
  "opt_prop JUndefined k = JUndefined"
| "opt_prop JNull k = JUndefined"
| "opt_prop v k = own v k"

text \<open>
  \<^verbatim>\<open>xs.map(f)\<close> where \<open>f\<close> may throw: the elements are visited in order and the first
  exception ends the call.
\<close>

fun map_exn :: "('a \<Rightarrow> exn + 'b) \<Rightarrow> 'a list \<Rightarrow> exn + 'b list" where
  "map_exn f [] = Inr []"
| "map_exn f (x # xs) =
     (case f x of
        Inl e \<Rightarrow> Inl e
      | Inr y \<Rightarrow> (case map_exn f xs of Inl e \<Rightarrow> Inl e | Inr ys \<Rightarrow> Inr (y # ys)))"

section \<open>Built-ins of the language that the component calls\<close>

subsection \<open>Strings\<close>

text \<open>The three non-ASCII strings of the source, in UTF-8.\<close>

definition em_dash :: string where
  "em_dash = [CHR 0xE2, CHR 0x80, CHR 0x94]"

definition nbsp :: string where
  "nbsp = [CHR 0xC2, CHR 0xA0]"

definition middle_dot :: string where
  "middle_dot = [CHR 0xC2, CHR 0xB7]"

text \<open>\<^verbatim>\<open>Array.prototype.join\<close> on strings, and \<^verbatim>\<open>String.prototype.split\<close> on one character.\<close>

fun join_with :: "string \<Rightarrow> string list \<Rightarrow> string" where
  "join_with sep [] = []"
| "join_with sep [x] = x"
| "join_with sep (x # y # ys) = x @ sep @ join_with sep (y # ys)"

fun split_on :: "char \<Rightarrow> string \<Rightarrow> string list" where
  "split_on c [] = [[]]"
| "split_on c (x # xs) =
     (if x = c then [] # split_on c xs
      else (case split_on c xs of p # ps \<Rightarrow> (x # p) # ps | [] \<Rightarrow> [[x]]))"

text \<open>
  White space and line terminators (\<^verbatim>\<open>StrWhiteSpaceChar\<close>): the one-byte characters
  U+0009 to U+000D and U+0020, and the UTF-8 forms of U+00A0, U+1680, U+2000 to U+200A,
  U+2028, U+2029, U+202F, U+205F, U+3000 and U+FEFF.
\<close>

definition ws1 :: "char \<Rightarrow> bool" where
  "ws1 a = (a \<in> {CHR 0x09, CHR 0x0A, CHR 0x0B, CHR 0x0C, CHR 0x0D, CHR 0x20})"

definition ws2 :: "char \<Rightarrow> char \<Rightarrow> bool" where
  "ws2 a b = (a = CHR 0xC2 \<and> b = CHR 0xA0)"

definition ws3 :: "char \<Rightarrow> char \<Rightarrow> char \<Rightarrow> bool" where
  "ws3 a b c =
     ((a = CHR 0xE1 \<and> b = CHR 0x9A \<and> c = CHR 0x80)
      \<or> (a = CHR 0xE2 \<and> b = CHR 0x80 \<and>
          ((128::nat) \<le> of_char c \<and> (of_char c :: nat) \<le> 138
           \<or> c = CHR 0xA8 \<or> c = CHR 0xA9 \<or> c = CHR 0xAF))
      \<or> (a = CHR 0xE2 \<and> b = CHR 0x81 \<and> c = CHR 0x9F)
      \<or> (a = CHR 0xE3 \<and> b = CHR 0x80 \<and> c = CHR 0x80)
      \<or> (a = CHR 0xEF \<and> b = CHR 0xBB \<and> c = CHR 0xBF))"

fun trimStart :: "string \<Rightarrow> string" where
  "trimStart [] = []"
| "trimStart [a] = (if ws1 a then [] else [a])"
| "trimStart [a, b] = (if ws1 a then trimStart [b] else if ws2 a b then [] else [a, b])"
| "trimStart (a # b # c # r) =
     (if ws1 a then trimStart (b # c # r)
      else if ws2 a b then trimStart (c # r)
      else if ws3 a b c then trimStart r
      else a # b # c # r)"

fun trimEnd :: "string \<Rightarrow> string" where
  "trimEnd [] = []"
| "trimEnd (c # cs) = (if trimStart (c # cs) = [] then [] else c # trimEnd cs)"

subsection \<open>Numbers from strings\<close>

definition digit_value :: "char \<Rightarrow> nat option" where
  "digit_value c =
     (let n = (of_char c :: nat)
      in if 48 \<le> n \<and> n \<le> 57 then Some (n - 48)
         else if 97 \<le> n \<and> n \<le> 102 then Some (n - 87)
         else if 65 \<le> n \<and> n \<le> 70 then Some (n - 55)
         else None)"

definition is_digit :: "nat \<Rightarrow> char \<Rightarrow> bool" where
  "is_digit radix c = (case digit_value c of Some v \<Rightarrow> v < radix | None \<Rightarrow> False)"

definition digits_value :: "nat \<Rightarrow> string \<Rightarrow> nat" where
  "digits_value radix ds =
     foldl (\<lambda>a c. a * radix + (case digit_value c of Some v \<Rightarrow> v | None \<Rightarrow> 0)) 0 ds"

definition pow10 :: "int \<Rightarrow> rat" where
  "pow10 k = (if 0 \<le> k then 10 ^ nat k else 1 / 10 ^ nat (- k))"

text \<open>An optional sign: the factor and the rest of the string.\<close>

fun sign_of :: "string \<Rightarrow> int \<times> string" where
  "sign_of [] = (1, [])"
| "sign_of (c # cs) =
     (if c = CHR ''+'' then (1, cs) else if c = CHR ''-'' then (- 1, cs) else (1, c # cs))"

text \<open>\<^verbatim>\<open>ExponentPart\<close>, or nothing, up to the end of the string.\<close>

definition exponent_part :: "string \<Rightarrow> int option" where
  "exponent_part r =
     (case r of
        [] \<Rightarrow> Some 0
      | c # t \<Rightarrow>
          if c = CHR ''e'' \<or> c = CHR ''E''
          then (case sign_of t of
                  (sg, ds) \<Rightarrow>
                    if ds \<noteq> [] \<and> list_all (is_digit 10) ds
                    then Some (sg * int (digits_value 10 ds)) else None)
          else None)"

text \<open>\<^verbatim>\<open>StrUnsignedDecimalLiteral\<close>: \<^verbatim>\<open>Infinity\<close>, or digits with an optional fraction and exponent.\<close>

definition unsigned_decimal :: "string \<Rightarrow> jsnum option" where
  "unsigned_decimal s =
     (if s = ''Infinity'' then Some PosInf
      else
        let ip = takeWhile (is_digit 10) s;
            r1 = dropWhile (is_digit 10) s;
            fp = (case r1 of c # t \<Rightarrow> if c = CHR ''.'' then takeWhile (is_digit 10) t else []
                           | [] \<Rightarrow> []);
            r2 = (case r1 of c # t \<Rightarrow> if c = CHR ''.'' then dropWhile (is_digit 10) t else r1
                           | [] \<Rightarrow> [])
        in if ip = [] \<and> fp = [] then None
           else (case exponent_part r2 of
                   None \<Rightarrow> None
                 | Some e \<Rightarrow>
                     Some (Fin (of_nat (digits_value 10 (ip @ fp)) * pow10 (e - int (length fp))))))"

definition negate :: "jsnum \<Rightarrow> jsnum" where
  "negate n = (case n of NaN \<Rightarrow> NaN | PosInf \<Rightarrow> NegInf | NegInf \<Rightarrow> PosInf | Fin q \<Rightarrow> Fin (- q))"

text \<open>\<^verbatim>\<open>NonDecimalIntegerLiteral\<close>: \<^verbatim>\<open>0x\<close>, \<^verbatim>\<open>0o\<close> or \<^verbatim>\<open>0b\<close> and digits of that radix, unsigned.\<close>

definition non_decimal :: "string \<Rightarrow> jsnum option" where
  "non_decimal s =
     (case s of
        z # x # ds \<Rightarrow>
          (let radix = (if x = CHR ''x'' \<or> x = CHR ''X'' then 16
                        else if x = CHR ''o'' \<or> x = CHR ''O'' then 8
                        else if x = CHR ''b'' \<or> x = CHR ''B'' then 2 else 0)
           in if z = CHR ''0'' \<and> radix \<noteq> 0 \<and> ds \<noteq> [] \<and> list_all (is_digit radix) ds
              then Some (Fin (of_nat (digits_value radix ds))) else None)
      | _ \<Rightarrow> None)"

definition StrNumericLiteral :: "string \<Rightarrow> jsnum option" where
  "StrNumericLiteral s =
     (case non_decimal s of
        Some n \<Rightarrow> Some n
      | None \<Rightarrow>
          (case s of
             c # cs \<Rightarrow>
               if c = CHR ''+'' then unsigned_decimal cs
               else if c = CHR ''-'' then map_option negate (unsigned_decimal cs)
               else unsigned_decimal s
           | [] \<Rightarrow> None))"

text \<open>\<^verbatim>\<open>StringToNumber\<close>: the empty or all-white-space string is 0, a string that is no numeric literal is \<open>NaN\<close>.\<close>

definition StringToNumber :: "string \<Rightarrow> jsnum" where
  "StringToNumber s =
     (let t = trimEnd (trimStart s)
      in if t = [] then Fin 0
         else (case StrNumericLiteral t of Some n \<Rightarrow> n | None \<Rightarrow> NaN))"

text \<open>
  \<^verbatim>\<open>parseInt(s, 10)\<close> on a string: leading white space and a sign are skipped, then the
  longest run of decimal digits is read; without a digit the result is \<open>NaN\<close>.
\<close>

definition parseInt10 :: "string \<Rightarrow> jsnum" where
  "parseInt10 s =
     (case sign_of (trimStart s) of
        (sg, r) \<Rightarrow>
          (let z = takeWhile (is_digit 10) r
           in if z = [] then NaN else Fin (of_int (sg * int (digits_value 10 z)))))"

subsection \<open>The runtime\<close>

text \<open>
  What the component obtains from its host and cannot compute itself:
  \<^item> \<open>navigator_language\<close>: \<^verbatim>\<open>navigator.language\<close>, a string;
  \<^item> \<open>Number_toString\<close>: the decimal text of a number;
  \<^item> \<open>NumberFormat_format locale currency n\<close>:
    \<^verbatim>\<open>new Intl.NumberFormat(locale, {style: 'currency', currency}).format(n)\<close>, \<open>None\<close> when
    this throws;
  \<^item> \<open>NumberFormat_en_US_USD n\<close>: the same with the literals \<^verbatim>\<open>'en-US'\<close> and \<^verbatim>\<open>'USD'\<close>,
    both well formed, so that the constructor has no cause to throw;
  \<^item> \<open>DateTimeFormat_format locale y m d\<close>: the text that
    \<^verbatim>\<open>new Intl.DateTimeFormat(locale, {year: 'numeric', month: 'short', day: 'numeric'})\<close>
    gives for a time value whose local calendar fields are the day \<open>d\<close> of month index
    \<open>m\<close> of year \<open>y\<close>, \<open>None\<close> when the constructor throws (malformed locale);
  \<^item> the time zone of the host: the offset of local time from UTC in milliseconds, as
    \<open>tz_base\<close>, the offset before the first transition, and \<open>tz_transitions\<close>, the
    transitions in ascending order, each the UTC instant (milliseconds since the epoch)
    from which a new offset holds.
\<close>

record runtime =
  navigator_language :: string
  Number_toString :: "jsnum \<Rightarrow> string"
  NumberFormat_format :: "string \<Rightarrow> string \<Rightarrow> jsnum \<Rightarrow> string option"
  NumberFormat_en_US_USD :: "jsnum \<Rightarrow> string"
  DateTimeFormat_format :: "string \<Rightarrow> int \<Rightarrow> int \<Rightarrow> int \<Rightarrow> string option"
  tz_base :: int
  tz_transitions :: "(int \<times> int) list"

subsection \<open>Conversions\<close>

text \<open>
  \<^verbatim>\<open>ToString\<close>, as template literals apply it. An array is its elements joined by a
  comma, with \<^verbatim>\<open>undefined\<close> and \<^verbatim>\<open>null\<close> elements empty.
\<close>

fun ToString :: "runtime \<Rightarrow> jsval \<Rightarrow> string" where
  "ToString rt JUndefined = ''undefined''"
| "ToString rt JNull = ''null''"
| "ToString rt (JBool b) = (if b then ''true'' else ''false'')"
| "ToString rt (JNum n) = Number_toString rt n"
| "ToString rt (JStr s) = s"
| "ToString rt (JArr xs) =
     join_with '','' (map (\<lambda>x. if x = JUndefined \<or> x = JNull then [] else ToString rt x) xs)"
| "ToString rt (JObj kvs) = ''[object Object]''"

text \<open>\<^verbatim>\<open>xs.join(sep)\<close> on an array of values.\<close>

definition js_join :: "runtime \<Rightarrow> string \<Rightarrow> jsval list \<Rightarrow> string" where
  "js_join rt sep xs =
     join_with sep (map (\<lambda>x. if x = JUndefined \<or> x = JNull then [] else ToString rt x) xs)"

text \<open>\<^verbatim>\<open>Number(v)\<close>.\<close>

fun Number :: "runtime \<Rightarrow> jsval \<Rightarrow> jsnum" where
  "Number rt JUndefined = NaN"
| "Number rt JNull = Fin 0"
| "Number rt (JBool b) = (if b then Fin 1 else Fin 0)"
| "Number rt (JNum n) = n"
| "Number rt (JStr s) = StringToNumber s"
| "Number rt (JArr xs) = StringToNumber (ToString rt (JArr xs))"
| "Number rt (JObj kvs) = NaN"

section \<open>Payment method\<close>

text \<open>
  \<^verbatim>\<open>mapPaymentMethod(pm)\<close>. Past the test \<^verbatim>\<open>!pm\<close> the value is neither
  \<^verbatim>\<open>undefined\<close> nor \<^verbatim>\<open>null\<close>, so no property read of this function throws.
\<close>

definition mapPaymentMethod :: "jsval \<Rightarrow> jsval" where
  "mapPaymentMethod pm =
     (if \<not> truthy pm \<or> own pm ''displayType'' = JStr ''BILL_TO_ACCOUNT''
      then JObj [(''label'', JStr ''Bill to Account''), (''nickname'', JNull),
                 (''cardType'', JNull), (''endingIn'', JNull), (''expiration'', JNull),
                 (''type'', JStr ''BILL_TO_ACCOUNT'')]
      else JObj [(''label'', JNull), (''nickname'', own pm ''nickname''),
                 (''cardType'', own pm ''cardType''), (''endingIn'', own pm ''endingIn''),
                 (''expiration'', own pm ''expiration''),
                 (''type'', JStr ''STORED_ACCOUNT'')])"

section \<open>Pagination\<close>

text \<open>
  The fields of the component that the controller reads and writes. \<open>groups\<close> and
  \<open>displayedGroups\<close> always hold arrays, \<open>currentPage\<close> and \<open>pageSize\<close> always hold
  integers (\<open>pageSize\<close> is initialised to 3 and never assigned).
\<close>

record controller =
  groups :: "jsval list"
  displayedGroups :: "jsval list"
  error :: jsval
  loading :: bool
  activeSectionNames :: jsval
  pageSize :: int
  currentPage :: int

definition initial :: controller where
  "initial = \<lparr> groups = [], displayedGroups = [], error = JUndefined, loading = True,
               activeSectionNames = JArr [], pageSize = 3, currentPage = 1 \<rparr>"

text \<open>
  \<^verbatim>\<open>Math.max(1, Math.ceil(this.groups.length / this.pageSize))\<close>. For a page size of at
  least 1 the quotient of the two integers is computed exactly enough for the ceiling to
  be the ceiling of the rational quotient. (For a page size of 0 JavaScript yields
  \<^verbatim>\<open>Infinity\<close> or \<^verbatim>\<open>NaN\<close>, which this integer model does not represent.)
\<close>

definition totalPages :: "controller \<Rightarrow> int" where
  "totalPages s = max 1 \<lceil>rat_of_int (int (length (groups s))) / rat_of_int (pageSize s)\<rceil>"

definition hasPagination :: "controller \<Rightarrow> bool" where
  "hasPagination s = (int (length (groups s)) > pageSize s)"

definition disablePrev :: "controller \<Rightarrow> bool" where
  "disablePrev s = (currentPage s \<le> 1)"

definition disableNext :: "controller \<Rightarrow> bool" where
  "disableNext s = (currentPage s \<ge> totalPages s)"

text \<open>
  \<^verbatim>\<open>Array.prototype.slice(start, end)\<close> with integer arguments: a negative index counts
  from the end, and both indices are clamped to the array.
\<close>

definition js_slice :: "'a list \<Rightarrow> int \<Rightarrow> int \<Rightarrow> 'a list" where
  "js_slice xs start end =
     (let len = int (length xs);
          k = (if start < 0 then max (len + start) 0 else min start len);
          final = (if end < 0 then max (len + end) 0 else min end len)
      in take (nat (max (final - k) 0)) (drop (nat k) xs))"

definition refreshDisplayed :: "controller \<Rightarrow> controller" where
  "refreshDisplayed s =
     (let start = (currentPage s - 1) * pageSize s;
          end = start + pageSize s
      in s\<lparr>displayedGroups := js_slice (groups s) start end\<rparr>)"

definition handleFirst :: "controller \<Rightarrow> controller" where
  "handleFirst s = (if \<not> disablePrev s then refreshDisplayed (s\<lparr>currentPage := 1\<rparr>) else s)"

definition handlePrev :: "controller \<Rightarrow> controller" where
  "handlePrev s =
     (if \<not> disablePrev s then refreshDisplayed (s\<lparr>currentPage := currentPage s - 1\<rparr>) else s)"

definition handleNext :: "controller \<Rightarrow> controller" where
  "handleNext s =
     (if \<not> disableNext s then refreshDisplayed (s\<lparr>currentPage := currentPage s + 1\<rparr>) else s)"

definition handleLast :: "controller \<Rightarrow> controller" where
  "handleLast s =
     (if \<not> disableNext s then refreshDisplayed (s\<lparr>currentPage := totalPages s\<rparr>) else s)"

text \<open>The slice the specification describes: page \<open>p\<close> of size \<open>n\<close>, cut at the end of the list.\<close>

definition page_of :: "'a list \<Rightarrow> int \<Rightarrow> int \<Rightarrow> 'a list" where
  "page_of xs p n = take (nat n) (drop (nat ((p - 1) * n)) xs)"

text \<open>
  The slice of the claim, \<open>groups[a : b]\<close> clamped to array bounds: both indices are
  brought into the array, and the elements between them are taken.
\<close>

definition clamped_slice :: "'a list \<Rightarrow> int \<Rightarrow> int \<Rightarrow> 'a list" where
  "clamped_slice xs a b =
     (let lo = max a 0; hi = min b (int (length xs))
      in take (nat hi - nat lo) (drop (nat lo) xs))"

text \<open>A state of seven groups on a given page, for the examples.\<close>

definition seven_groups :: "int \<Rightarrow> controller" where
  "seven_groups p =
     initial\<lparr>groups := map JStr [''a'', ''b'', ''c'', ''d'', ''e'', ''f'', ''g''],
             currentPage := p\<rparr>"

section \<open>Formatting\<close>

definition get_locale :: "runtime \<Rightarrow> string" where
  "get_locale rt = (if navigator_language rt \<noteq> [] then navigator_language rt else ''en-US'')"

definition get_currency :: string where
  "get_currency = ''USD''"

text \<open>
  \<^verbatim>\<open>formatCurrency(value)\<close> and \<^verbatim>\<open>formatDiscount(value)\<close>, which have the same body:
  the value itself when it is no number, else the currency text of the active locale, and
  the en-US/USD text when the locale's formatter throws.
\<close>

definition formatCurrency :: "runtime \<Rightarrow> jsval \<Rightarrow> jsval" where
  "formatCurrency rt v =
     (let num = (case v of JNum n \<Rightarrow> n | _ \<Rightarrow> Number rt v)
      in if num = NaN then v
         else (case NumberFormat_format rt (get_locale rt) get_currency num of
                 Some text \<Rightarrow> JStr text
               | None \<Rightarrow> JStr (NumberFormat_en_US_USD rt num)))"

definition formatDiscount :: "runtime \<Rightarrow> jsval \<Rightarrow> jsval" where
  "formatDiscount rt v =
     (let num = (case v of JNum n \<Rightarrow> n | _ \<Rightarrow> Number rt v)
      in if num = NaN then v
         else (case NumberFormat_format rt (get_locale rt) get_currency num of
                 Some text \<Rightarrow> JStr text
               | None \<Rightarrow> JStr (NumberFormat_en_US_USD rt num)))"

subsection \<open>Dates\<close>

text \<open>
  The calendar of \<^verbatim>\<open>Date\<close>: days are counted from 1 January 1970 in the proleptic
  Gregorian calendar. \<open>days_from_civil y m d\<close> is the number of the day \<open>d\<close> of month
  \<open>m\<close> (1 to 12) of year \<open>y\<close>, and \<open>civil_from_days\<close> gives the year, the month index
  (0 to 11) and the day of the month of a day number (\<^verbatim>\<open>YearFromTime\<close>,
  \<^verbatim>\<open>MonthFromTime\<close>, \<^verbatim>\<open>DateFromTime\<close>).
\<close>

definition msPerDay :: int where
  "msPerDay = 86400000"

definition days_from_civil :: "int \<Rightarrow> int \<Rightarrow> int \<Rightarrow> int" where
  "days_from_civil y m d =
     (let y' = (if m \<le> 2 then y - 1 else y);
          era = y' div 400;
          yoe = y' - era * 400;
          doy = (153 * (if 2 < m then m - 3 else m + 9) + 2) div 5 + d - 1;
          doe = yoe * 365 + yoe div 4 - yoe div 100 + doy
      in era * 146097 + doe - 719468)"

definition civil_from_days :: "int \<Rightarrow> int \<times> int \<times> int" where
  "civil_from_days z =
     (let z' = z + 719468;
          era = z' div 146097;
          doe = z' - era * 146097;
          yoe = (doe - doe div 1460 + doe div 36524 - doe div 146096) div 365;
          doy = doe - (365 * yoe + yoe div 4 - yoe div 100);
          mp = (5 * doy + 2) div 153;
          d = doy - (153 * mp + 2) div 5 + 1;
          m = (if mp < 10 then mp + 3 else mp - 9)
      in (yoe + era * 400 + (if m \<le> 2 then 1 else 0), m - 1, d))"

text \<open>
  \<^verbatim>\<open>MakeFullYear\<close>: a year from 0 to 99 counts from 1900. \<^verbatim>\<open>MakeDay(year, month, date)\<close>:
  a month index outside 0 to 11 carries into the year, and the day of the month counts
  on from the first of that month.
\<close>

definition MakeFullYear :: "int \<Rightarrow> int" where
  "MakeFullYear y = (if 0 \<le> y \<and> y \<le> 99 then 1900 + y else y)"

definition MakeDay :: "int \<Rightarrow> int \<Rightarrow> int \<Rightarrow> int" where
  "MakeDay yr m dt = days_from_civil (yr + m div 12) (m mod 12 + 1) 1 + dt - 1"

text \<open>
  The time zone. \<open>offset_at\<close> is the offset that holds at a UTC instant
  (\<^verbatim>\<open>LocalTime(t) = t + offset\<close>). \<open>utc_of_local\<close> is \<^verbatim>\<open>UTC(t)\<close>, the instant of a local
  time: where a local time occurs twice (the clock was set back) the earlier instant is
  taken, and where it does not occur (the clock was set forward over it) it is read with
  the offset before the transition.
\<close>

fun offset_at :: "int \<Rightarrow> (int \<times> int) list \<Rightarrow> int \<Rightarrow> int" where
  "offset_at cur [] u = cur"
| "offset_at cur ((i, off) # r) u = (if u < i then cur else offset_at off r u)"

fun utc_of_local :: "int \<Rightarrow> (int \<times> int) list \<Rightarrow> int \<Rightarrow> int" where
  "utc_of_local cur [] t = t - cur"
| "utc_of_local cur ((i, off) # r) t =
     (if t - cur < i then t - cur
      else if t - off < i then t - cur
      else utc_of_local off r t)"

text \<open>A \<^verbatim>\<open>Date\<close>: invalid, or its time value, the milliseconds since the epoch in UTC.\<close>

datatype jsdate = InvalidDate | TimeValue int

definition truncate :: "rat \<Rightarrow> int" where
  "truncate q = (if 0 \<le> q then \<lfloor>q\<rfloor> else \<lceil>q\<rceil>)"

text \<open>
  \<^verbatim>\<open>new Date(y, m, d)\<close> on numbers: invalid when an argument is not finite; else
  midnight of the local day \<^verbatim>\<open>MakeDay(MakeFullYear(y), m, d)\<close>, turned into UTC, and
  invalid when that is further than 8.64e15 ms from the epoch (\<^verbatim>\<open>TimeClip\<close>).
\<close>

fun new_Date :: "runtime \<Rightarrow> jsnum \<Rightarrow> jsnum \<Rightarrow> jsnum \<Rightarrow> jsdate" where
  "new_Date rt (Fin y) (Fin m) (Fin d) =
     (let tv = utc_of_local (tz_base rt) (tz_transitions rt)
                 (MakeDay (MakeFullYear (truncate y)) (truncate m) (truncate d) * msPerDay)
      in if \<bar>tv\<bar> \<le> 8640000000000000 then TimeValue tv else InvalidDate)"
| "new_Date rt _ _ _ = InvalidDate"

text \<open>The local calendar fields of a time value, which the formatter renders.\<close>

definition local_fields :: "runtime \<Rightarrow> int \<Rightarrow> int \<times> int \<times> int" where
  "local_fields rt tv =
     civil_from_days ((tv + offset_at (tz_base rt) (tz_transitions rt) tv) div msPerDay)"

text \<open>\<^verbatim>\<open>x || 1\<close> for a destructured element that is a number or \<^verbatim>\<open>undefined\<close>, and \<^verbatim>\<open>n - 1\<close>.\<close>

fun or_one :: "jsnum option \<Rightarrow> jsnum" where
  "or_one None = Fin 1"
| "or_one (Some n) = (if n = NaN \<or> n = Fin 0 then Fin 1 else n)"

fun minus_one :: "jsnum \<Rightarrow> jsnum" where
  "minus_one (Fin q) = Fin (q - 1)"
| "minus_one n = n"

definition element :: "'a list \<Rightarrow> nat \<Rightarrow> 'a option" where
  "element xs i = (if i < length xs then Some (xs ! i) else None)"

text \<open>
  \<^verbatim>\<open>formatDate(dateStr)\<close>. Inside the \<^verbatim>\<open>try\<close>: a truthy value that is no string has no
  \<^verbatim>\<open>split\<close> (a \<^verbatim>\<open>TypeError\<close>), and formatting an invalid date is a \<^verbatim>\<open>RangeError\<close>; the
  \<^verbatim>\<open>catch\<close> returns the argument.
\<close>

definition formatDate :: "runtime \<Rightarrow> jsval \<Rightarrow> jsval" where
  "formatDate rt dateStr =
     (case js_or dateStr (JStr []) of
        JStr s \<Rightarrow>
          (let parts = map parseInt10 (split_on CHR ''-'' s);
               y = element parts 0;
               m = element parts 1;
               d = element parts 2;
               localDate = (case y of Some yn \<Rightarrow> new_Date rt yn (minus_one (or_one m)) (or_one d)
                               | None \<Rightarrow> InvalidDate)
           in (case localDate of
                 InvalidDate \<Rightarrow> dateStr
               | TimeValue tv \<Rightarrow>
                   (case local_fields rt tv of
                      (yy, mm, dd) \<Rightarrow>
                        (case DateTimeFormat_format rt (get_locale rt) yy mm dd of
                           Some text \<Rightarrow> JStr text
                         | None \<Rightarrow> dateStr))))
      | _ \<Rightarrow> dateStr)"

section \<open>Errors\<close>

text \<open>
  \<^verbatim>\<open>normalizeError(error)\<close>. Reading \<^verbatim>\<open>e.message\<close> throws when a sub-error is
  \<^verbatim>\<open>undefined\<close> or \<^verbatim>\<open>null\<close>.
\<close>

definition normalizeError :: "runtime \<Rightarrow> jsval \<Rightarrow> exn + jsval" where
  "normalizeError rt err =
     (case opt_prop err ''body'' of
        JArr es \<Rightarrow>
          (case map_exn (\<lambda>e. get_prop e ''message'') es of
             Inl x \<Rightarrow> Inl x
           | Inr ms \<Rightarrow> Inr (JStr (js_join rt '', '' ms)))
      | body \<Rightarrow>
          if truthy (opt_prop body ''message'') then Inr (own body ''message'')
          else Inr (js_or (opt_prop err ''statusText'') (JStr ''Unknown error'')))"

section \<open>Mapping the payload\<close>

definition nullish :: "jsval \<Rightarrow> bool" where
  "nullish v = (v = JUndefined \<or> v = JNull)"

text \<open>\<^verbatim>\<open>Array.isArray(v) ? v : []\<close>.\<close>

definition array_or_empty :: "jsval \<Rightarrow> jsval list" where
  "array_or_empty v = (case v of JArr xs \<Rightarrow> xs | _ \<Rightarrow> [])"

text \<open>
  \<^verbatim>\<open>mapDiscounts(discounts)\<close>. The arrow function reads properties of each element, which
  throws on an element that is \<^verbatim>\<open>undefined\<close> or \<^verbatim>\<open>null\<close> and on no other.
\<close>

definition mapDiscount :: "runtime \<Rightarrow> jsval \<Rightarrow> exn + jsval" where
  "mapDiscount rt d =
     (if nullish d then Inl TypeError
      else Inr (JObj [(''name'', own d ''name''),
                      (''amount'', formatDiscount rt (own d ''amount'')),
                      (''discountScheduleId'', own d ''discountScheduleId''),
                      (''parentFeeScheduleId'', own d ''parentFeeScheduleId''),
                      (''tliDescription'', own d ''tliDescription'')]))"

definition mapDiscounts :: "runtime \<Rightarrow> jsval \<Rightarrow> exn + jsval" where
  "mapDiscounts rt discounts =
     (case map_exn (mapDiscount rt) (array_or_empty discounts) of
        Inl x \<Rightarrow> Inl x
      | Inr ds \<Rightarrow> Inr (JArr ds))"

text \<open>\<^verbatim>\<open>mapSectionItems(items)\<close>.\<close>

definition mapSectionItem :: "runtime \<Rightarrow> jsval \<Rightarrow> exn + jsval" where
  "mapSectionItem rt it =
     (if nullish it then Inl TypeError
      else (case mapDiscounts rt (own it ''discounts'') of
              Inl x \<Rightarrow> Inl x
            | Inr ds \<Rightarrow>
                Inr (JObj [(''feeName'', own it ''feeName''),
                           (''feeAmount'', formatCurrency rt (own it ''feeAmount'')),
                           (''feeScheduleId'', own it ''feeScheduleId''),
                           (''tliDescription'', own it ''tliDescription''),
                           (''discounts'', ds)])))"

definition mapSectionItems :: "runtime \<Rightarrow> jsval \<Rightarrow> exn + jsval" where
  "mapSectionItems rt items =
     (case map_exn (mapSectionItem rt) (array_or_empty items) of
        Inl x \<Rightarrow> Inl x
      | Inr its \<Rightarrow> Inr (JArr its))"

section \<open>Detail rows\<close>

text \<open>
  \<^verbatim>\<open>(v || []).forEach(f)\<close>: the elements to visit. A truthy value that is no array has no
  \<^verbatim>\<open>forEach\<close>, and the call throws.
\<close>

definition forEach_elements :: "jsval \<Rightarrow> exn + jsval list" where
  "forEach_elements v = (case js_or v (JArr []) of JArr xs \<Rightarrow> Inr xs | _ \<Rightarrow> Inl TypeError)"

text \<open>
  A loop whose body pushes rows: the rows of every element in order, or the first
  exception.
\<close>

fun push_all :: "('a \<Rightarrow> exn + 'b list) \<Rightarrow> 'a list \<Rightarrow> exn + 'b list" where
  "push_all f [] = Inr []"
| "push_all f (x # xs) =
     (case f x of
        Inl e \<Rightarrow> Inl e
      | Inr rows \<Rightarrow> (case push_all f xs of Inl e \<Rightarrow> Inl e | Inr rest \<Rightarrow> Inr (rows @ rest)))"

text \<open>The row pushed for a discount; \<open>prefix\<close> is \<^verbatim>\<open>disc-\<close> or \<^verbatim>\<open>disc-misc-\<close>.\<close>

definition discount_row :: "runtime \<Rightarrow> string \<Rightarrow> jsval \<Rightarrow> exn + jsval list" where
  "discount_row rt prefix disc =
     (if nullish disc then Inl TypeError
      else Inr [JObj [(''id'', JStr (prefix @ ToString rt (own disc ''discountScheduleId''))),
                      (''description'',
                         js_or (js_or (own disc ''tliDescription'') (own disc ''name''))
                           (JStr em_dash)),
                      (''type'', JStr ''Discount''),
                      (''amount'', JStr (''-'' @ ToString rt (own disc ''amount''))),
                      (''recordId'', own disc ''discountScheduleId'')]])"

text \<open>The rows pushed for a fee: its own row, then the rows of its discounts.\<close>

definition fee_rows :: "runtime \<Rightarrow> jsval \<Rightarrow> exn + jsval list" where
  "fee_rows rt fee =
     (if nullish fee then Inl TypeError
      else (case forEach_elements (own fee ''discounts'') of
              Inl e \<Rightarrow> Inl e
            | Inr ds \<Rightarrow>
                (case push_all (discount_row rt ''disc-'') ds of
                   Inl e \<Rightarrow> Inl e
                 | Inr rows \<Rightarrow>
                     Inr (JObj [(''id'', JStr (''fee-'' @ ToString rt (own fee ''feeScheduleId''))),
                                (''description'',
                                   js_or (js_or (own fee ''tliDescription'') (own fee ''feeName''))
                                     (JStr em_dash)),
                                (''type'', JStr ''Fee''),
                                (''amount'', own fee ''feeAmount''),
                                (''recordId'', own fee ''feeScheduleId'')] # rows))))"

text \<open>\<^verbatim>\<open>buildDetailRows(group)\<close>.\<close>

definition buildDetailRows :: "runtime \<Rightarrow> jsval \<Rightarrow> exn + jsval list" where
  "buildDetailRows rt grp =
     (case get_prop grp ''items'' of
        Inl e \<Rightarrow> Inl e
      | Inr items \<Rightarrow>
          (case forEach_elements items of
             Inl e \<Rightarrow> Inl e
           | Inr fees \<Rightarrow>
               (case push_all (fee_rows rt) fees of
                  Inl e \<Rightarrow> Inl e
                | Inr rows1 \<Rightarrow>
                    (case forEach_elements (own grp ''miscDiscounts'') of
                       Inl e \<Rightarrow> Inl e
                     | Inr misc \<Rightarrow>
                         (case push_all (discount_row rt ''disc-misc-'') misc of
                            Inl e \<Rightarrow> Inl e
                          | Inr rows2 \<Rightarrow> Inr (rows1 @ rows2))))))"

section \<open>The wire handler\<close>

text \<open>
  The object literal that the arrow function of \<^verbatim>\<open>wiredPayments\<close> builds from a raw
  group, before \<open>detailRows\<close> and \<open>accordionLabel\<close> are added.
\<close>

definition mapFields :: "runtime \<Rightarrow> jsval \<Rightarrow> exn + jsval" where
  "mapFields rt g =
     (if nullish g then Inl TypeError
      else (case mapSectionItems rt (own g ''items'') of
              Inl e \<Rightarrow> Inl e
            | Inr items \<Rightarrow>
                (case mapDiscounts rt (own g ''miscDiscounts'') of
                   Inl e \<Rightarrow> Inl e
                 | Inr misc \<Rightarrow>
                     Inr (JObj
                       [(''id'', own g ''sectionId''),
                        (''groupId'', own g ''billingScheduleGroupId''),
                        (''name'', own g ''billingScheduleGroupName''),
                        (''nextDate'',
                           if truthy (own g ''nextBillingDate'')
                           then formatDate rt (own g ''nextBillingDate'') else JNull),
                        (''feeTotal'', formatCurrency rt (own g ''feeTotal'')),
                        (''discountTotal'', formatDiscount rt (own g ''discountTotal'')),
                        (''netTotal'', formatCurrency rt (own g ''netTotal'')),
                        (''paymentMethod'', mapPaymentMethod (own g ''paymentMethod'')),
                        (''tliDescription'', own g ''tliDescription''),
                        (''items'', items),
                        (''miscDiscounts'', misc)]))))"

definition accordionLabel :: "runtime \<Rightarrow> jsval \<Rightarrow> string" where
  "accordionLabel rt mapped =
     (let pad = nbsp @ nbsp @ nbsp
      in ''Details: '' @ pad @ ''Fees '' @ ToString rt (own mapped ''feeTotal'') @ pad
           @ middle_dot @ pad @ ''Discounts '' @ ToString rt (own mapped ''discountTotal''))"

text \<open>Assigning a property that the object does not have yet.\<close>

fun add_prop :: "jsval \<Rightarrow> string \<Rightarrow> jsval \<Rightarrow> jsval" where
  "add_prop (JObj kvs) k v = JObj (kvs @ [(k, v)])"
| "add_prop x k v = x"

definition mapGroup :: "runtime \<Rightarrow> jsval \<Rightarrow> exn + jsval" where
  "mapGroup rt g =
     (case mapFields rt g of
        Inl e \<Rightarrow> Inl e
      | Inr mapped \<Rightarrow>
          (case buildDetailRows rt mapped of
             Inl e \<Rightarrow> Inl e
           | Inr rows \<Rightarrow>
               Inr (add_prop (add_prop mapped ''detailRows'' (JArr rows))
                      ''accordionLabel'' (JStr (accordionLabel rt mapped)))))"

text \<open>
  \<^verbatim>\<open>wiredPayments({ data, error })\<close>. The result is the state the call leaves behind, and
  the exception if one escaped. \<open>loading\<close> is assigned first; \<open>groups\<close> is assigned only
  once the whole payload is mapped. A truthy \<open>data\<close> that is no array has no \<^verbatim>\<open>map\<close>.
\<close>

definition wiredPayments :: "runtime \<Rightarrow> controller \<Rightarrow> jsval \<Rightarrow> jsval \<Rightarrow> exn option \<times> controller" where
  "wiredPayments rt s data err =
     (let s1 = s\<lparr>loading := False\<rparr>
      in if truthy data then
           (case data of
              JArr gs \<Rightarrow>
                (case map_exn (mapGroup rt) gs of
                   Inl e \<Rightarrow> (Some e, s1)
                 | Inr mapped \<Rightarrow>
                     (None, (refreshDisplayed (s1\<lparr>groups := mapped, currentPage := 1\<rparr>))
                              \<lparr>error := JUndefined\<rparr>))
            | _ \<Rightarrow> (Some TypeError, s1))
         else if truthy err then
           (case normalizeError rt err of
              Inl e \<Rightarrow> (Some e, s1)
            | Inr message \<Rightarrow>
                (None, s1\<lparr>error := message, groups := [], displayedGroups := [],
                           currentPage := 1\<rparr>))
         else (None, s1))"

text \<open>The events of the controller, and a run of events from a state.\<close>

datatype event = Wire jsval jsval | First | Prev | Next | Last

fun step :: "runtime \<Rightarrow> controller \<Rightarrow> event \<Rightarrow> controller" where
  "step rt s (Wire data err) = snd (wiredPayments rt s data err)"
| "step rt s First = handleFirst s"
| "step rt s Prev = handlePrev s"
| "step rt s Next = handleNext s"
| "step rt s Last = handleLast s"

definition run :: "runtime \<Rightarrow> controller \<Rightarrow> event list \<Rightarrow> controller" where
  "run rt s evs = foldl (step rt) s evs"

section \<open>A runtime for the examples\<close>

text \<open>A stand-in for the host, which formats just the values that the examples below use.\<close>

definition example_runtime :: runtime where
  "example_runtime =
     \<lparr> navigator_language = ''en-US'',
       Number_toString = (\<lambda>n. if n = Fin 7 then ''7'' else ''?''),
       NumberFormat_format = (\<lambda>loc cur n.
          if loc = ''en-US'' \<and> cur = ''USD''
          then (if n = Fin 0 then Some ''$0.00'' else if n = Fin 10 then Some ''$10.00''
                else if n = Fin (5 / 2) then Some ''$2.50'' else None)
          else None),
       NumberFormat_en_US_USD = (\<lambda>n. ''$#''),
       DateTimeFormat_format = (\<lambda>loc y m d.
          if y = 2025 \<and> m = 0 \<and> d = 1 then Some ''Jan 1, 2025''
          else if y = 2025 \<and> m = 0 \<and> d = 5 then Some ''Jan 5, 2025''
          else if y = 2025 \<and> m = 0 \<and> d = 6 then Some ''Jan 6, 2025''
          else if y = 2025 \<and> m = 1 \<and> d = 3 then Some ''Feb 3, 2025''
          else None),
       tz_base = - 14400000,
       tz_transitions = [(1730613600000, - 18000000), (1741503600000, - 14400000)] \<rparr>"



text \<open>A payload of seven groups, an error, and a group with fees and discounts.\<close>

definition example_group :: "string \<Rightarrow> jsval" where
  "example_group x = JObj [(''sectionId'', JStr x)]"

definition example_mapped :: "string \<Rightarrow> jsval" where
  "example_mapped x =
     (case mapGroup example_runtime (example_group x) of Inr m \<Rightarrow> m | Inl e \<Rightarrow> JUndefined)"

definition example_payload :: jsval where
  "example_payload = JArr (map example_group [''a'', ''b'', ''c'', ''d'', ''e'', ''f'', ''g''])"

definition example_error :: jsval where
  "example_error = JObj [(''body'', JObj [(''message'', JStr ''C'')])]"

definition example_raw :: jsval where
  "example_raw =
     JObj [(''sectionId'', JStr ''s1''),
           (''items'',
              JArr [JObj [(''feeName'', JStr ''Swim''), (''feeAmount'', JNum (Fin 10)),
                          (''feeScheduleId'', JStr ''F1''),
                          (''discounts'',
                             JArr [JObj [(''name'', JStr ''Promo''), (''amount'', JStr ''2.5''),
                                         (''discountScheduleId'', JStr ''D1'')]])],
                    JObj [(''feeScheduleId'', JStr ''F2'')]]),
           (''miscDiscounts'',
              JArr [JObj [(''discountScheduleId'', JStr ''D9''), (''amount'', JStr ''N/A'')]])]"


text \<open>The currency text of a number: that of the active locale, else the en-US/USD one.\<close>

definition currency_text :: "runtime \<Rightarrow> jsnum \<Rightarrow> string" where
  "currency_text rt n =
     (case NumberFormat_format rt (get_locale rt) ''USD'' n of
        Some text \<Rightarrow> text
      | None \<Rightarrow> NumberFormat_en_US_USD rt n)"

section \<open>The rows as the specification words them\<close>

text \<open>
  The specification's \<open>RowFlattener\<close>, on the raw group: for each fee item in input
  order one Fee row (id \<open>fee-<feeScheduleId>\<close>, the description or the fee name or an
  em-dash, the formatted fee amount), then one Discount row for each discount of that fee
  in input order (id \<open>disc-<discountScheduleId>\<close>, the description or the name or an
  em-dash, the formatted amount after a minus sign); after all fee items one Discount row
  for each misc discount in input order (id \<open>disc-misc-<discountScheduleId>\<close>).
\<close>

definition description_or_dash :: "jsval \<Rightarrow> jsval \<Rightarrow> jsval" where
  "description_or_dash d n = (if truthy d then d else if truthy n then n else JStr em_dash)"

definition fee_row_spec :: "runtime \<Rightarrow> jsval \<Rightarrow> jsval" where
  "fee_row_spec rt fee =
     JObj [(''id'', JStr (''fee-'' @ ToString rt (own fee ''feeScheduleId''))),
           (''description'', description_or_dash (own fee ''tliDescription'') (own fee ''feeName'')),
           (''type'', JStr ''Fee''),
           (''amount'', formatCurrency rt (own fee ''feeAmount'')),
           (''recordId'', own fee ''feeScheduleId'')]"

definition discount_row_spec :: "runtime \<Rightarrow> string \<Rightarrow> jsval \<Rightarrow> jsval" where
  "discount_row_spec rt prefix d =
     JObj [(''id'', JStr (prefix @ ToString rt (own d ''discountScheduleId''))),
           (''description'', description_or_dash (own d ''tliDescription'') (own d ''name'')),
           (''type'', JStr ''Discount''),
           (''amount'', JStr (''-'' @ ToString rt (formatDiscount rt (own d ''amount'')))),
           (''recordId'', own d ''discountScheduleId'')]"

definition flatten_spec :: "runtime \<Rightarrow> jsval \<Rightarrow> jsval list" where
  "flatten_spec rt g =
     concat (map (\<lambda>fee. fee_row_spec rt fee
                    # map (discount_row_spec rt ''disc-'') (array_or_empty (own fee ''discounts'')))
               (array_or_empty (own g ''items'')))
     @ map (discount_row_spec rt ''disc-misc-'') (array_or_empty (own g ''miscDiscounts''))"

section \<open>The invariant of the page number\<close>

definition page_ok :: "controller \<Rightarrow> bool" where
  "page_ok s = (1 \<le> pageSize s \<and> 1 \<le> currentPage s \<and> currentPage s \<le> totalPages s)"

text \<open>
  A payload is a list of raw groups, and an error may carry a list of sub-errors: a raw
  group, a fee item, a discount and a sub-error are values with properties, that is
  neither \<^verbatim>\<open>undefined\<close> nor \<^verbatim>\<open>null\<close>.
\<close>

definition well_formed_group :: "jsval \<Rightarrow> bool" where
  "well_formed_group g =
     (\<not> nullish g
      \<and> (\<forall>fee \<in> set (array_or_empty (own g ''items'')).
            \<not> nullish fee \<and> (\<forall>d \<in> set (array_or_empty (own fee ''discounts'')). \<not> nullish d))
      \<and> (\<forall>d \<in> set (array_or_empty (own g ''miscDiscounts'')). \<not> nullish d))"

definition well_formed_error :: "jsval \<Rightarrow> bool" where
  "well_formed_error err = (\<forall>e \<in> set (array_or_empty (opt_prop err ''body'')). \<not> nullish e)"

section \<open>A parsed date, as the specification words it\<close>








section \<open>Properties of pagination\<close>

lemma js_slice_page:
  assumes "0 \<le> start" "0 \<le> n"
  shows "js_slice xs start (start + n) = take (nat n) (drop (nat start) xs)"
proof (cases "start + n \<le> int (length xs)")
  case True
  have "nat (start + n - start) = nat n" by simp
  with True assms show ?thesis
    by (simp add: js_slice_def Let_def min_def max_def)
next
  case False
  show ?thesis
  proof (cases "start \<le> int (length xs)")
    case True
    with False assms have "length (drop (nat start) xs) \<le> nat n" by simp
    with True False assms show ?thesis
      by (simp add: js_slice_def Let_def min_def max_def nat_diff_distrib)
  next
    case False
    with assms show ?thesis
      by (simp add: js_slice_def Let_def min_def max_def)
  qed
qed

lemma js_slice_length:
  assumes "0 \<le> n"
  shows "length (js_slice xs start (start + n)) \<le> nat n"
  using assms by (auto simp: js_slice_def Let_def min_def max_def)

lemma totalPages_le_iff:
  assumes "1 \<le> pageSize s"
  shows "totalPages s \<le> t \<longleftrightarrow> 1 \<le> t \<and> int (length (groups s)) \<le> t * pageSize s"
proof -
  have pos: "0 < rat_of_int (pageSize s)" using assms by simp
  have "\<lceil>rat_of_int (int (length (groups s))) / rat_of_int (pageSize s)\<rceil> \<le> t
        \<longleftrightarrow> rat_of_int (int (length (groups s))) / rat_of_int (pageSize s) \<le> rat_of_int t"
    by (rule ceiling_le_iff)
  also have "\<dots> \<longleftrightarrow> rat_of_int (int (length (groups s))) \<le> rat_of_int t * rat_of_int (pageSize s)"
    using pos by (rule pos_divide_le_eq)
  also have "\<dots> \<longleftrightarrow> int (length (groups s)) \<le> t * pageSize s"
    by (simp only: of_int_mult [symmetric] of_int_le_iff)
  finally show ?thesis by (auto simp: totalPages_def)
qed

lemma ceiling_7_3: "\<lceil>7 / 3 :: rat\<rceil> = 3"
  by (rule ceiling_unique) simp_all

lemma totalPages_ge_1: "1 \<le> totalPages s"
  by (simp add: totalPages_def)

lemma refreshDisplayed_page:
  assumes "1 \<le> pageSize s" "1 \<le> currentPage s"
  shows "displayedGroups (refreshDisplayed s) = page_of (groups s) (currentPage s) (pageSize s)"
  using assms by (simp add: refreshDisplayed_def Let_def page_of_def js_slice_page)

lemma refreshDisplayed_length:
  assumes "1 \<le> pageSize s"
  shows "length (displayedGroups (refreshDisplayed s)) \<le> nat (pageSize s)"
  using assms js_slice_length [of "pageSize s" "groups s" "(currentPage s - 1) * pageSize s"]
  by (simp add: refreshDisplayed_def Let_def)

lemma refreshDisplayed_fields [simp]:
  "groups (refreshDisplayed s) = groups s"
  "currentPage (refreshDisplayed s) = currentPage s"
  "pageSize (refreshDisplayed s) = pageSize s"
  "error (refreshDisplayed s) = error s"
  "loading (refreshDisplayed s) = loading s"
  "activeSectionNames (refreshDisplayed s) = activeSectionNames s"
  by (simp_all add: refreshDisplayed_def Let_def)

lemma totalPages_cong [simp]:
  "totalPages (refreshDisplayed s) = totalPages s"
  "totalPages (s\<lparr>currentPage := p\<rparr>) = totalPages s"
  by (simp_all add: totalPages_def)

lemma js_slice_nonneg:
  assumes "0 \<le> b"
  shows "js_slice xs a b = (if 0 \<le> a then clamped_slice xs a b
                            else clamped_slice xs (int (length xs) + a) b)"
  using assms
  by (auto simp: js_slice_def clamped_slice_def Let_def min_def max_def nat_diff_distrib)

lemma js_slice_negative:
  assumes "a < 0" "b < 0"
  shows "js_slice xs a b = clamped_slice xs (int (length xs) + a) (int (length xs) + b)"
  using assms
  by (auto simp: js_slice_def clamped_slice_def Let_def min_def max_def nat_diff_distrib)

lemma refreshDisplayed_clamped:
  assumes "1 \<le> pageSize s" "0 \<le> currentPage s"
  shows "displayedGroups (refreshDisplayed s)
     = clamped_slice (groups s) ((currentPage s - 1) * pageSize s) (currentPage s * pageSize s)"
proof (cases "currentPage s = 0")
  case True
  with assms show ?thesis
    by (simp add: refreshDisplayed_def Let_def js_slice_def clamped_slice_def)
next
  case False
  with assms have c: "1 \<le> currentPage s" by simp
  then have a: "0 \<le> (currentPage s - 1) * pageSize s" using assms by simp
  have e: "(currentPage s - 1) * pageSize s + pageSize s = currentPage s * pageSize s"
    by (simp add: algebra_simps)
  have b: "0 \<le> currentPage s * pageSize s" using assms by simp
  show ?thesis
    using js_slice_nonneg [OF b, of "groups s" "(currentPage s - 1) * pageSize s"] a
    by (simp add: refreshDisplayed_def Let_def e)
qed

lemma refreshDisplayed_from_end:
  assumes "1 \<le> pageSize s" "currentPage s < 0"
  shows "displayedGroups (refreshDisplayed s)
     = clamped_slice (groups s) (int (length (groups s)) + (currentPage s - 1) * pageSize s)
         (int (length (groups s)) + currentPage s * pageSize s)"
proof -
  have e: "(currentPage s - 1) * pageSize s + pageSize s = currentPage s * pageSize s"
    by (simp add: algebra_simps)
  have b: "currentPage s * pageSize s < 0" using assms by (simp add: mult_neg_pos)
  have a: "(currentPage s - 1) * pageSize s < 0" using assms by (simp add: mult_neg_pos)
  show ?thesis
    using js_slice_negative [OF a b, of "groups s"]
    by (simp add: refreshDisplayed_def Let_def e)
qed

text \<open>
  Claim C2, as the code has it. For every page size of at least 1 (the component's is 3)
  and every number of groups, \<open>totalPages\<close> is \<open>max(1, ceil(count / pageSize))\<close>, that
  is the least \<open>t \<ge> 1\<close> with \<open>count \<le> t * pageSize\<close>. \<open>refreshDisplayed\<close> is a total
  function (it has no error result), and for every integer \<open>currentPage\<close> the slice it
  stores has at most \<open>pageSize\<close> elements. For every \<open>currentPage\<close> of at least 0 the
  slice is \<open>groups[(currentPage-1)*pageSize : currentPage*pageSize]\<close> clamped to array
  bounds: the page itself for a page number of at least 1 (cut at the end of the array,
  empty beyond the last page), and the empty slice for page 0. For a negative
  \<open>currentPage\<close>, which no operation sets, \<open>slice\<close> counts both indices from the end
  of the array: the slice is
  \<open>groups[len+(currentPage-1)*pageSize : len+currentPage*pageSize]\<close> clamped to array
  bounds.
\<close>

theorem pagination_slice:
  assumes "1 \<le> pageSize s"
  shows "totalPages s
           = max 1 \<lceil>rat_of_int (int (length (groups s))) / rat_of_int (pageSize s)\<rceil>
    \<and> (\<forall>t. totalPages s \<le> t \<longleftrightarrow> 1 \<le> t \<and> int (length (groups s)) \<le> t * pageSize s)
    \<and> length (displayedGroups (refreshDisplayed s)) \<le> nat (pageSize s)
    \<and> (1 \<le> currentPage s \<longrightarrow>
         displayedGroups (refreshDisplayed s)
           = take (nat (pageSize s)) (drop (nat ((currentPage s - 1) * pageSize s)) (groups s)))
    \<and> (0 \<le> currentPage s \<longrightarrow>
         displayedGroups (refreshDisplayed s)
           = clamped_slice (groups s) ((currentPage s - 1) * pageSize s)
               (currentPage s * pageSize s))
    \<and> (currentPage s < 0 \<longrightarrow>
         displayedGroups (refreshDisplayed s)
           = clamped_slice (groups s)
               (int (length (groups s)) + (currentPage s - 1) * pageSize s)
               (int (length (groups s)) + currentPage s * pageSize s))"
  using assms totalPages_le_iff [OF assms] refreshDisplayed_length [OF assms]
    refreshDisplayed_page [OF assms] refreshDisplayed_clamped [OF assms]
    refreshDisplayed_from_end [OF assms]
  by (simp add: totalPages_def page_of_def)

theorem pagination_slice_witness:
  "1 \<le> pageSize (seven_groups 3)
   \<and> totalPages (seven_groups 3) = 3
   \<and> displayedGroups (refreshDisplayed (seven_groups 1)) = map JStr [''a'', ''b'', ''c'']
   \<and> displayedGroups (refreshDisplayed (seven_groups 3)) = [JStr ''g'']
   \<and> displayedGroups (refreshDisplayed (seven_groups 9)) = []
   \<and> displayedGroups (refreshDisplayed (seven_groups 0)) = []
   \<and> displayedGroups (refreshDisplayed (seven_groups (- 1))) = map JStr [''b'', ''c'', ''d'']"
  using pagination_slice [of "seven_groups 3"] pagination_slice [of "seven_groups 1"]
    pagination_slice [of "seven_groups 9"] pagination_slice [of "seven_groups 0"]
    pagination_slice [of "seven_groups (- 1)"]
  by (simp add: seven_groups_def initial_def ceiling_7_3 clamped_slice_def)

text \<open>
  Claim C2, as it is stated, fails for a negative page number: on page -1 of seven groups
  the stored slice is not \<open>groups[-6 : -3]\<close> clamped to array bounds, which is empty, but
  the three elements that \<open>slice\<close> finds counting from the end.
\<close>

theorem pagination_slice_counterexample:
  "displayedGroups (refreshDisplayed (seven_groups (- 1)))
   \<noteq> clamped_slice (groups (seven_groups (- 1)))
        ((currentPage (seven_groups (- 1)) - 1) * pageSize (seven_groups (- 1)))
        (currentPage (seven_groups (- 1)) * pageSize (seven_groups (- 1)))"
  by (simp add: refreshDisplayed_def js_slice_def seven_groups_def initial_def clamped_slice_def)

text \<open>
  Claim C3. On page 1 Previous changes nothing, and on the last page Next changes nothing
  (so \<open>currentPage\<close> and the displayed slice stay as they are). On any later page
  Previous lowers \<open>currentPage\<close> by exactly 1, and on any page before the last Next raises
  it by exactly 1; both then store the slice of the new page.
\<close>

theorem prev_next_navigation:
  "(currentPage s = 1 \<longrightarrow> handlePrev s = s)
   \<and> (currentPage s = totalPages s \<longrightarrow> handleNext s = s)
   \<and> (1 < currentPage s \<longrightarrow>
        currentPage (handlePrev s) = currentPage s - 1
        \<and> groups (handlePrev s) = groups s
        \<and> (1 \<le> pageSize s \<longrightarrow>
             displayedGroups (handlePrev s)
               = page_of (groups s) (currentPage s - 1) (pageSize s)))
   \<and> (currentPage s < totalPages s \<longrightarrow>
        currentPage (handleNext s) = currentPage s + 1
        \<and> groups (handleNext s) = groups s
        \<and> (1 \<le> pageSize s \<and> 1 \<le> currentPage s \<longrightarrow>
             displayedGroups (handleNext s)
               = page_of (groups s) (currentPage s + 1) (pageSize s)))"
  by (simp add: handlePrev_def handleNext_def disablePrev_def disableNext_def
      refreshDisplayed_page)

theorem prev_next_navigation_witness:
  "handlePrev initial = initial
   \<and> handleNext initial = initial
   \<and> displayedGroups (handleNext (refreshDisplayed
        (initial\<lparr>groups := map JStr [''a'', ''b'', ''c'', ''d'', ''e'', ''f'', ''g'']\<rparr>)))
       = map JStr [''d'', ''e'', ''f'']
   \<and> displayedGroups (handlePrev (refreshDisplayed
        (initial\<lparr>groups := map JStr [''a'', ''b'', ''c'', ''d'', ''e'', ''f'', ''g''],
                 currentPage := 3\<rparr>)))
       = map JStr [''d'', ''e'', ''f'']"
  using prev_next_navigation [of initial]
    prev_next_navigation [of "refreshDisplayed
        (initial\<lparr>groups := map JStr [''a'', ''b'', ''c'', ''d'', ''e'', ''f'', ''g'']\<rparr>)"]
    prev_next_navigation [of "refreshDisplayed
        (initial\<lparr>groups := map JStr [''a'', ''b'', ''c'', ''d'', ''e'', ''f'', ''g''],
                 currentPage := 3\<rparr>)"]
  by (simp add: initial_def page_of_def totalPages_def ceiling_7_3)

section \<open>Properties of the payment method mapping\<close>

text \<open>
  Claim C9. \<open>mapPaymentMethod\<close> classifies two ways. An absent input (\<open>undefined\<close> or
  \<open>null\<close>) and any input whose \<open>displayType\<close> is \<open>'BILL_TO_ACCOUNT'\<close> give the
  bill-to-account variant: the fixed label and every other field \<open>null\<close>. Every other
  payment method record (indeed every other truthy value) gives the stored-account
  variant: \<open>nickname\<close>, \<open>cardType\<close>, \<open>endingIn\<close> and \<open>expiration\<close> as read from the
  input and a \<open>null\<close> label. The result never carries a third \<open>type\<close>.
\<close>

theorem mapPaymentMethod_two_way:
  "((pm = JUndefined \<or> pm = JNull \<or> own pm ''displayType'' = JStr ''BILL_TO_ACCOUNT'') \<longrightarrow>
      mapPaymentMethod pm =
        JObj [(''label'', JStr ''Bill to Account''), (''nickname'', JNull),
              (''cardType'', JNull), (''endingIn'', JNull), (''expiration'', JNull),
              (''type'', JStr ''BILL_TO_ACCOUNT'')])
   \<and> (truthy pm \<and> own pm ''displayType'' \<noteq> JStr ''BILL_TO_ACCOUNT'' \<longrightarrow>
      mapPaymentMethod pm =
        JObj [(''label'', JNull), (''nickname'', own pm ''nickname''),
              (''cardType'', own pm ''cardType''), (''endingIn'', own pm ''endingIn''),
              (''expiration'', own pm ''expiration''), (''type'', JStr ''STORED_ACCOUNT'')])
   \<and> (own (mapPaymentMethod pm) ''type'' = JStr ''BILL_TO_ACCOUNT''
      \<or> own (mapPaymentMethod pm) ''type'' = JStr ''STORED_ACCOUNT'')"
  by (auto simp: mapPaymentMethod_def)

theorem mapPaymentMethod_two_way_witness:
  "mapPaymentMethod (JObj [(''displayType'', JStr ''BILL_TO_ACCOUNT'')]) =
     JObj [(''label'', JStr ''Bill to Account''), (''nickname'', JNull),
           (''cardType'', JNull), (''endingIn'', JNull), (''expiration'', JNull),
           (''type'', JStr ''BILL_TO_ACCOUNT'')]
   \<and> mapPaymentMethod (JObj [(''nickname'', JStr ''Visa''), (''cardType'', JStr ''VISA''),
                             (''endingIn'', JStr ''1234'')]) =
     JObj [(''label'', JNull), (''nickname'', JStr ''Visa''), (''cardType'', JStr ''VISA''),
           (''endingIn'', JStr ''1234''), (''expiration'', JUndefined),
           (''type'', JStr ''STORED_ACCOUNT'')]"
  using mapPaymentMethod_two_way [of "JObj [(''displayType'', JStr ''BILL_TO_ACCOUNT'')]"]
    mapPaymentMethod_two_way [of "JObj [(''nickname'', JStr ''Visa''),
      (''cardType'', JStr ''VISA''), (''endingIn'', JStr ''1234'')]"]
  by simp

section \<open>Properties of the formatters\<close>

lemma num_is_Number: "(case v of JNum n \<Rightarrow> n | _ \<Rightarrow> Number rt v) = Number rt v"
  by (cases v) simp_all

lemma formatCurrency_eq:
  "formatCurrency rt v = (if Number rt v = NaN then v else JStr (currency_text rt (Number rt v)))"
  by (simp add: formatCurrency_def num_is_Number currency_text_def get_currency_def
      split: option.split)

lemma formatDiscount_eq: "formatDiscount rt v = formatCurrency rt v"
  by (simp add: formatCurrency_def formatDiscount_def)

lemma StringToNumber_NA: "StringToNumber ''N/A'' = NaN"
  by code_simp

lemma StringToNumber_empty: "StringToNumber [] = Fin 0"
  by (simp add: StringToNumber_def)

text \<open>
  Claim C6. When \<open>Number(value)\<close> is \<open>NaN\<close> (as for \<open>"N/A"\<close>), \<open>formatCurrency\<close>
  returns the value it was given; it is a total function and has no error result.
  Otherwise it returns the currency text of the active locale for \<open>Number(value)\<close>, and
  the en-US/USD text when the locale's formatter throws.
\<close>

theorem formatCurrency_passthrough:
  "(Number rt v = NaN \<longrightarrow> formatCurrency rt v = v)
   \<and> (Number rt v \<noteq> NaN \<longrightarrow>
        (case NumberFormat_format rt (get_locale rt) ''USD'' (Number rt v) of
           Some text \<Rightarrow> formatCurrency rt v = JStr text
         | None \<Rightarrow> formatCurrency rt v = JStr (NumberFormat_en_US_USD rt (Number rt v))))"
  by (simp add: formatCurrency_eq currency_text_def split: option.split)

theorem formatCurrency_passthrough_witness:
  "Number example_runtime (JStr ''N/A'') = NaN
   \<and> formatCurrency example_runtime (JStr ''N/A'') = JStr ''N/A''
   \<and> Number example_runtime (JNum (Fin 10)) \<noteq> NaN
   \<and> formatCurrency example_runtime (JNum (Fin 10)) = JStr ''$10.00''
   \<and> formatCurrency example_runtime (JNum (Fin 3)) = JStr ''$#''"
  using formatCurrency_passthrough [of example_runtime "JStr ''N/A''"]
    formatCurrency_passthrough [of example_runtime "JNum (Fin 10)"]
    formatCurrency_passthrough [of example_runtime "JNum (Fin 3)"]
  by (simp add: StringToNumber_NA example_runtime_def get_locale_def)

text \<open>
  Claim C10. \<open>Number(null)\<close> and \<open>Number("")\<close> are 0, not \<open>NaN\<close>: for \<open>null\<close> and for
  the empty string \<open>formatCurrency\<close> and \<open>formatDiscount\<close> return the currency text of
  zero, not their argument.
\<close>

theorem absent_amount_is_zero:
  "formatCurrency rt JNull = JStr (currency_text rt (Fin 0))
   \<and> formatCurrency rt (JStr []) = JStr (currency_text rt (Fin 0))
   \<and> formatDiscount rt JNull = JStr (currency_text rt (Fin 0))
   \<and> formatDiscount rt (JStr []) = JStr (currency_text rt (Fin 0))
   \<and> formatCurrency rt JNull \<noteq> JNull
   \<and> formatDiscount rt JNull \<noteq> JNull
   \<and> (currency_text rt (Fin 0) \<noteq> [] \<longrightarrow>
        formatCurrency rt (JStr []) \<noteq> JStr [] \<and> formatDiscount rt (JStr []) \<noteq> JStr [])"
  by (simp add: formatDiscount_eq formatCurrency_eq StringToNumber_empty)

theorem absent_amount_is_zero_witness:
  "currency_text example_runtime (Fin 0) = ''$0.00''
   \<and> formatCurrency example_runtime JNull = JStr ''$0.00''
   \<and> formatCurrency example_runtime (JStr []) = JStr ''$0.00''
   \<and> formatDiscount example_runtime (JStr []) \<noteq> JStr []"
  using absent_amount_is_zero [of example_runtime]
  by (simp add: currency_text_def example_runtime_def get_locale_def)


section \<open>Properties of the error normaliser\<close>

lemma map_exn_all:
  assumes "\<And>x. x \<in> set xs \<Longrightarrow> f x = Inr (g x)"
  shows "map_exn f xs = Inr (map g xs)"
  using assms by (induction xs) simp_all

lemma get_prop_not_nullish: "\<not> nullish v \<Longrightarrow> get_prop v k = Inr (own v k)"
  by (cases v) (simp_all add: nullish_def)

lemma js_join_strings: "js_join rt sep (map JStr ms) = join_with sep ms"
  by (simp add: js_join_def comp_def)

lemma opt_prop_own: "\<not> nullish v \<Longrightarrow> opt_prop v k = own v k"
  by (cases v) (simp_all add: nullish_def)

text \<open>
  Claim C7. \<open>normalizeError\<close> is a priority chain. When \<open>error.body\<close> is an array (of
  sub-errors, none \<open>undefined\<close> or \<open>null\<close>) the result is their \<open>message\<close> fields
  joined with \<open>", "\<close>; else when \<open>error.body.message\<close> is truthy it is that message; else
  when \<open>error.statusText\<close> is truthy it is that text; else it is \<open>"Unknown error"\<close>.
\<close>

theorem normalizeError_priority:
  "(\<forall>es. opt_prop err ''body'' = JArr es \<and> (\<forall>e \<in> set es. \<not> nullish e) \<longrightarrow>
       normalizeError rt err
         = Inr (JStr (js_join rt '', '' (map (\<lambda>e. own e ''message'') es))))
   \<and> (\<forall>ms. opt_prop err ''body'' = JArr (map (\<lambda>m. JObj [(''message'', JStr m)]) ms) \<longrightarrow>
       normalizeError rt err = Inr (JStr (join_with '', '' ms)))
   \<and> (\<not> isArray (opt_prop err ''body'')
        \<and> truthy (opt_prop (opt_prop err ''body'') ''message'') \<longrightarrow>
       normalizeError rt err = Inr (opt_prop (opt_prop err ''body'') ''message''))
   \<and> (\<not> isArray (opt_prop err ''body'')
        \<and> \<not> truthy (opt_prop (opt_prop err ''body'') ''message'')
        \<and> truthy (opt_prop err ''statusText'') \<longrightarrow>
       normalizeError rt err = Inr (opt_prop err ''statusText''))
   \<and> (\<not> isArray (opt_prop err ''body'')
        \<and> \<not> truthy (opt_prop (opt_prop err ''body'') ''message'')
        \<and> \<not> truthy (opt_prop err ''statusText'') \<longrightarrow>
       normalizeError rt err = Inr (JStr ''Unknown error''))"
proof (intro conjI allI impI)
  fix es
  assume h: "opt_prop err ''body'' = JArr es \<and> (\<forall>e \<in> set es. \<not> nullish e)"
  then have "map_exn (\<lambda>e. get_prop e ''message'') es = Inr (map (\<lambda>e. own e ''message'') es)"
    by (intro map_exn_all) (simp add: get_prop_not_nullish)
  with h show "normalizeError rt err
         = Inr (JStr (js_join rt '', '' (map (\<lambda>e. own e ''message'') es)))"
    by (simp add: normalizeError_def)
next
  fix ms
  assume h: "opt_prop err ''body'' = JArr (map (\<lambda>m. JObj [(''message'', JStr m)]) ms)"
  have "map_exn (\<lambda>e. get_prop e ''message'') (map (\<lambda>m. JObj [(''message'', JStr m)]) ms)
          = Inr (map JStr ms)"
    by (induction ms) simp_all
  with h show "normalizeError rt err = Inr (JStr (join_with '', '' ms))"
    by (simp add: normalizeError_def js_join_strings)
next
  assume h: "\<not> isArray (opt_prop err ''body'')
        \<and> truthy (opt_prop (opt_prop err ''body'') ''message'')"
  then have "\<not> nullish (opt_prop err ''body'')"
    by (auto simp: nullish_def)
  with h show "normalizeError rt err = Inr (opt_prop (opt_prop err ''body'') ''message'')"
    by (cases "opt_prop err ''body''") (simp_all add: normalizeError_def isArray_def)
next
  assume h: "\<not> isArray (opt_prop err ''body'')
        \<and> \<not> truthy (opt_prop (opt_prop err ''body'') ''message'')
        \<and> truthy (opt_prop err ''statusText'')"
  then show "normalizeError rt err = Inr (opt_prop err ''statusText'')"
    by (cases "opt_prop err ''body''") (simp_all add: normalizeError_def isArray_def js_or_def)
next
  assume h: "\<not> isArray (opt_prop err ''body'')
        \<and> \<not> truthy (opt_prop (opt_prop err ''body'') ''message'')
        \<and> \<not> truthy (opt_prop err ''statusText'')"
  then show "normalizeError rt err = Inr (JStr ''Unknown error'')"
    by (cases "opt_prop err ''body''") (simp_all add: normalizeError_def isArray_def js_or_def)
qed

theorem normalizeError_priority_witness:
  "normalizeError example_runtime
     (JObj [(''body'', JArr [JObj [(''message'', JStr ''A'')], JObj [(''message'', JStr ''B'')]])])
     = Inr (JStr ''A, B'')
   \<and> normalizeError example_runtime (JObj [(''body'', JObj [(''message'', JStr ''C'')])])
     = Inr (JStr ''C'')
   \<and> normalizeError example_runtime (JObj [(''statusText'', JStr ''Not Found'')])
     = Inr (JStr ''Not Found'')
   \<and> normalizeError example_runtime (JObj []) = Inr (JStr ''Unknown error'')"
proof -
  have a: "normalizeError example_runtime
     (JObj [(''body'', JArr [JObj [(''message'', JStr ''A'')], JObj [(''message'', JStr ''B'')]])])
     = Inr (JStr ''A, B'')"
    using normalizeError_priority [of "JObj [(''body'', JArr [JObj [(''message'', JStr ''A'')],
      JObj [(''message'', JStr ''B'')]])]" example_runtime]
    by (simp add: nullish_def js_join_def)
  have b: "normalizeError example_runtime (JObj [(''body'', JObj [(''message'', JStr ''C'')])])
     = Inr (JStr ''C'')"
    using normalizeError_priority [of "JObj [(''body'', JObj [(''message'', JStr ''C'')])]"
      example_runtime]
    by (simp add: isArray_def)
  have c: "normalizeError example_runtime (JObj [(''statusText'', JStr ''Not Found'')])
     = Inr (JStr ''Not Found'')"
    using normalizeError_priority [of "JObj [(''statusText'', JStr ''Not Found'')]" example_runtime]
    by (simp add: isArray_def)
  have d: "normalizeError example_runtime (JObj []) = Inr (JStr ''Unknown error'')"
    using normalizeError_priority [of "JObj []" example_runtime]
    by (simp add: isArray_def)
  from a b c d show ?thesis by simp
qed


section \<open>Properties of the controller\<close>

lemma js_slice_first: "0 \<le> n \<Longrightarrow> js_slice xs 0 n = take (nat n) xs"
  using js_slice_page [of 0 n xs] by simp

lemma wiredPayments_cases:
  "wiredPayments rt s data err =
     (if truthy data then
        (case data of
           JArr gs \<Rightarrow>
             (case map_exn (mapGroup rt) gs of
                Inl e \<Rightarrow> (Some e, s\<lparr>loading := False\<rparr>)
              | Inr mapped \<Rightarrow>
                  (None, s\<lparr>loading := False, groups := mapped, currentPage := 1,
                            displayedGroups := js_slice mapped 0 (pageSize s),
                            error := JUndefined\<rparr>))
         | _ \<Rightarrow> (Some TypeError, s\<lparr>loading := False\<rparr>))
      else if truthy err then
        (case normalizeError rt err of
           Inl e \<Rightarrow> (Some e, s\<lparr>loading := False\<rparr>)
         | Inr message \<Rightarrow>
             (None, s\<lparr>loading := False, error := message, groups := [], displayedGroups := [],
                       currentPage := 1\<rparr>))
      else (None, s\<lparr>loading := False\<rparr>))"
  by (simp add: wiredPayments_def Let_def refreshDisplayed_def split: jsval.split sum.split)

lemma totalPages_loading [simp]: "totalPages (s\<lparr>loading := b\<rparr>) = totalPages s"
  by (simp add: totalPages_def)

lemma wiredPayments_page_ok:
  assumes "page_ok s"
  shows "page_ok (snd (wiredPayments rt s data err))"
  using assms
  by (auto simp: wiredPayments_cases page_ok_def totalPages_def split: jsval.split sum.split)

lemma wiredPayments_pageSize: "pageSize (snd (wiredPayments rt s data err)) = pageSize s"
  by (auto simp: wiredPayments_cases split: jsval.split sum.split)

lemma step_page_ok:
  assumes "page_ok s"
  shows "page_ok (step rt s ev)"
proof (cases ev)
  case (Wire data err)
  with assms show ?thesis by (simp add: wiredPayments_page_ok)
next
  case First
  with assms show ?thesis
    by (simp add: handleFirst_def disablePrev_def page_ok_def totalPages_ge_1)
next
  case Prev
  with assms show ?thesis
    by (simp add: handlePrev_def disablePrev_def page_ok_def)
next
  case Next
  with assms show ?thesis
    by (simp add: handleNext_def disableNext_def page_ok_def)
next
  case Last
  with assms show ?thesis
    by (simp add: handleLast_def disableNext_def page_ok_def totalPages_ge_1)
qed

lemma step_pageSize: "pageSize (step rt s ev) = pageSize s"
  by (cases ev)
    (simp_all add: wiredPayments_pageSize handleFirst_def handlePrev_def handleNext_def
      handleLast_def)

lemma run_page_ok: "page_ok s \<Longrightarrow> page_ok (run rt s evs)"
  unfolding run_def by (induction evs arbitrary: s) (simp_all add: step_page_ok)

lemma run_pageSize: "pageSize (run rt s evs) = pageSize s"
  unfolding run_def by (induction evs arbitrary: s) (simp_all add: step_pageSize)

lemma arrival_resets:
  assumes "1 \<le> pageSize s" "wiredPayments rt s data err = (None, s')" "truthy data \<or> truthy err"
  shows "currentPage s' = 1 \<and> displayedGroups s' = take (nat (pageSize s)) (groups s')
    \<and> totalPages s' = max 1 \<lceil>rat_of_int (int (length (groups s'))) / rat_of_int (pageSize s)\<rceil>
    \<and> (truthy data \<longrightarrow> (\<exists>gs. data = JArr gs \<and> map_exn (mapGroup rt) gs = Inr (groups s'))
          \<and> error s' = JUndefined)
    \<and> (\<not> truthy data \<longrightarrow> groups s' = [] \<and> normalizeError rt err = Inr (error s'))"
  using assms
  by (auto simp: wiredPayments_cases js_slice_first totalPages_def split: jsval.splits sum.splits if_splits)

text \<open>
  Claim C8. On the arrival of an error (no data, a truthy error that \<open>normalizeError\<close>
  turns into a message) the state becomes: the message as \<open>error\<close>, no groups, no
  displayed groups, page 1, not loading. Nothing of the previous groups, slice, page or
  error remains; only the page size and the open accordion sections are kept.
\<close>

theorem error_arrival:
  assumes "\<not> truthy data" "truthy err" "normalizeError rt err = Inr message"
  shows "wiredPayments rt s data err =
           (None, \<lparr> groups = [], displayedGroups = [], error = message, loading = False,
                     activeSectionNames = activeSectionNames s, pageSize = pageSize s,
                     currentPage = 1 \<rparr>)"
  using assms by (simp add: wiredPayments_cases)


lemma mapGroup_example: "mapGroup example_runtime (example_group x) = Inr (example_mapped x)"
  by (simp add: example_mapped_def example_group_def mapGroup_def mapFields_def nullish_def
      mapSectionItems_def mapDiscounts_def array_or_empty_def buildDetailRows_def
      forEach_elements_def js_or_def)

lemma example_payload_mapped:
  "map_exn (mapGroup example_runtime) (map example_group xs) = Inr (map example_mapped xs)"
  by (induction xs) (simp_all add: mapGroup_example)

lemma example_run:
  "run example_runtime initial [Wire example_payload JUndefined, Next, Last, Next]
     = \<lparr> groups = map example_mapped [''a'', ''b'', ''c'', ''d'', ''e'', ''f'', ''g''],
         displayedGroups = [example_mapped ''g''], error = JUndefined, loading = False,
         activeSectionNames = JArr [], pageSize = 3, currentPage = 3 \<rparr>"
  by (simp add: run_def wiredPayments_cases example_payload_def mapGroup_example
      handleNext_def handleLast_def disableNext_def totalPages_def ceiling_7_3
      refreshDisplayed_def js_slice_def initial_def)

theorem error_arrival_witness:
  "\<not> truthy JUndefined \<and> truthy example_error
   \<and> normalizeError example_runtime example_error = Inr (JStr ''C'')
   \<and> wiredPayments example_runtime
        (run example_runtime initial [Wire example_payload JUndefined, Next, Last, Next])
        JUndefined example_error
      = (None, \<lparr> groups = [], displayedGroups = [], error = JStr ''C'', loading = False,
                 activeSectionNames = JArr [], pageSize = 3, currentPage = 1 \<rparr>)"
proof -
  have n: "normalizeError example_runtime example_error = Inr (JStr ''C'')"
    by (simp add: normalizeError_def example_error_def)
  have t: "truthy example_error" by (simp add: example_error_def)
  have u: "\<not> truthy JUndefined" by simp
  from error_arrival [OF u t n, of "run example_runtime initial
      [Wire example_payload JUndefined, Next, Last, Next]"] u t n
  show ?thesis by (simp add: example_run)
qed

section \<open>Properties of the detail rows\<close>

lemma js_or_description:
  "js_or (js_or d n) (JStr em_dash) = description_or_dash d n"
  by (simp add: js_or_def description_or_dash_def)

lemma truthy_description: "truthy (description_or_dash d n)"
  by (simp add: description_or_dash_def em_dash_def)

lemma discount_row_mapped:
  assumes "mapDiscount rt d = Inr m"
  shows "discount_row rt p m = Inr [discount_row_spec rt p d]"
proof -
  from assms have "\<not> nullish d" and
    m: "m = JObj [(''name'', own d ''name''),
                  (''amount'', formatDiscount rt (own d ''amount'')),
                  (''discountScheduleId'', own d ''discountScheduleId''),
                  (''parentFeeScheduleId'', own d ''parentFeeScheduleId''),
                  (''tliDescription'', own d ''tliDescription'')]"
    by (auto simp: mapDiscount_def split: if_splits)
  show ?thesis
    unfolding m discount_row_def discount_row_spec_def js_or_description
    by (simp add: nullish_def)
qed

lemma discount_rows_mapped:
  assumes "map_exn (mapDiscount rt) ds = Inr ms"
  shows "push_all (discount_row rt p) ms = Inr (map (discount_row_spec rt p) ds)"
  using assms
proof (induction ds arbitrary: ms)
  case Nil
  then show ?case by simp
next
  case (Cons d ds)
  from Cons.prems obtain m ms' where m: "mapDiscount rt d = Inr m"
    and ms': "map_exn (mapDiscount rt) ds = Inr ms'" and eq: "ms = m # ms'"
    by (auto split: sum.splits)
  from Cons.IH [OF ms'] discount_row_mapped [OF m] eq show ?case by simp
qed

lemma mapDiscounts_Inr:
  assumes "mapDiscounts rt v = Inr r"
  shows "\<exists>ms. r = JArr ms \<and> map_exn (mapDiscount rt) (array_or_empty v) = Inr ms"
  using assms by (auto simp: mapDiscounts_def split: sum.splits)

lemma forEach_elements_array [simp]: "forEach_elements (JArr xs) = Inr xs"
  by (simp add: forEach_elements_def js_or_def)

lemma fee_rows_mapped:
  assumes "mapSectionItem rt it = Inr m"
  shows "fee_rows rt m = Inr (fee_row_spec rt it
           # map (discount_row_spec rt ''disc-'') (array_or_empty (own it ''discounts'')))"
proof -
  from assms obtain r where "\<not> nullish it" and r: "mapDiscounts rt (own it ''discounts'') = Inr r"
    and m: "m = JObj [(''feeName'', own it ''feeName''),
                      (''feeAmount'', formatCurrency rt (own it ''feeAmount'')),
                      (''feeScheduleId'', own it ''feeScheduleId''),
                      (''tliDescription'', own it ''tliDescription''),
                      (''discounts'', r)]"
    by (auto simp: mapSectionItem_def split: if_splits sum.splits)
  from mapDiscounts_Inr [OF r] obtain ms where ms: "r = JArr ms"
    and ok: "map_exn (mapDiscount rt) (array_or_empty (own it ''discounts'')) = Inr ms"
    by blast
  note rows = discount_rows_mapped [OF ok, of "''disc-''"]
  show ?thesis
    unfolding m ms fee_rows_def fee_row_spec_def js_or_description
    by (simp add: nullish_def rows)
qed

lemma fees_rows_mapped:
  assumes "map_exn (mapSectionItem rt) its = Inr ms"
  shows "push_all (fee_rows rt) ms
           = Inr (concat (map (\<lambda>fee. fee_row_spec rt fee
                    # map (discount_row_spec rt ''disc-'') (array_or_empty (own fee ''discounts'')))
                  its))"
  using assms
proof (induction its arbitrary: ms)
  case Nil
  then show ?case by simp
next
  case (Cons it its)
  from Cons.prems obtain m ms' where m: "mapSectionItem rt it = Inr m"
    and ms': "map_exn (mapSectionItem rt) its = Inr ms'" and eq: "ms = m # ms'"
    by (auto split: sum.splits)
  from Cons.IH [OF ms'] fee_rows_mapped [OF m] eq show ?case by simp
qed

lemma mapFields_Inr:
  assumes "mapFields rt g = Inr mapped"
  shows "\<exists>its ms. own mapped ''items'' = JArr its \<and> own mapped ''miscDiscounts'' = JArr ms
     \<and> \<not> nullish mapped
     \<and> map_exn (mapSectionItem rt) (array_or_empty (own g ''items'')) = Inr its
     \<and> map_exn (mapDiscount rt) (array_or_empty (own g ''miscDiscounts'')) = Inr ms"
  using assms
  by (auto simp: mapFields_def mapSectionItems_def mapDiscounts_def nullish_def
      split: if_splits sum.splits)

lemma buildDetailRows_mapped:
  assumes "mapFields rt g = Inr mapped"
  shows "buildDetailRows rt mapped = Inr (flatten_spec rt g)"
proof -
  from mapFields_Inr [OF assms] obtain its ms where
    i: "own mapped ''items'' = JArr its" and d: "own mapped ''miscDiscounts'' = JArr ms"
    and n: "\<not> nullish mapped"
    and its: "map_exn (mapSectionItem rt) (array_or_empty (own g ''items'')) = Inr its"
    and ms: "map_exn (mapDiscount rt) (array_or_empty (own g ''miscDiscounts'')) = Inr ms"
    by blast
  have gp: "get_prop mapped ''items'' = Inr (JArr its)"
    using n i by (cases mapped) (simp_all add: nullish_def)
  show ?thesis
    by (simp add: buildDetailRows_def gp d fees_rows_mapped [OF its]
        discount_rows_mapped [OF ms] flatten_spec_def)
qed

lemma length_fee_groups:
  "length (concat (map (\<lambda>fee. r fee # map f (ds fee)) fees))
     = length fees + sum_list (map (\<lambda>fee. length (ds fee)) fees)"
  by (induction fees) simp_all

lemma length_flatten_spec:
  "length (flatten_spec rt g)
     = length (array_or_empty (own g ''items''))
       + sum_list (map (\<lambda>fee. length (array_or_empty (own fee ''discounts'')))
           (array_or_empty (own g ''items'')))
       + length (array_or_empty (own g ''miscDiscounts''))"
  by (simp add: flatten_spec_def length_fee_groups)

lemma flatten_spec_described: "r \<in> set (flatten_spec rt g) \<Longrightarrow> truthy (own r ''description'')"
  by (auto simp: flatten_spec_def fee_row_spec_def discount_row_spec_def truthy_description)

lemma mapGroup_detailRows:
  assumes "mapFields rt g = Inr mapped"
  shows "\<exists>m. mapGroup rt g = Inr m \<and> own m ''detailRows'' = JArr (flatten_spec rt g)"
proof -
  from assms obtain kvs where k: "mapped = JObj kvs" and nk: "map_of kvs ''detailRows'' = None"
    by (auto simp: mapFields_def split: if_splits sum.splits)
  show ?thesis
    using buildDetailRows_mapped [OF assms] assms nk
    by (simp add: mapGroup_def k map_add_def [symmetric] map_add_Some_iff split: option.split)
qed


lemma map_exn_ex:
  assumes "\<And>x. x \<in> set xs \<Longrightarrow> \<exists>y. f x = Inr y"
  shows "\<exists>ys. map_exn f xs = Inr ys"
  using assms
proof (induction xs)
  case Nil
  show ?case by simp
next
  case (Cons x xs)
  from Cons.prems [of x] obtain y where "f x = Inr y" by auto
  moreover from Cons obtain ys where "map_exn f xs = Inr ys" by auto
  ultimately show ?case by simp
qed

lemma mapDiscounts_succeeds:
  assumes "\<forall>d \<in> set (array_or_empty v). \<not> nullish d"
  shows "\<exists>r. mapDiscounts rt v = Inr r"
proof -
  have "\<exists>ys. map_exn (mapDiscount rt) (array_or_empty v) = Inr ys"
    using assms by (intro map_exn_ex) (simp add: mapDiscount_def)
  then show ?thesis by (auto simp: mapDiscounts_def)
qed

lemma mapSectionItems_succeeds:
  assumes "\<forall>fee \<in> set (array_or_empty v).
             \<not> nullish fee \<and> (\<forall>d \<in> set (array_or_empty (own fee ''discounts'')). \<not> nullish d)"
  shows "\<exists>r. mapSectionItems rt v = Inr r"
proof -
  have "\<exists>y. mapSectionItem rt fee = Inr y" if "fee \<in> set (array_or_empty v)" for fee
  proof -
    from that assms have n: "\<not> nullish fee"
      and d: "\<forall>d \<in> set (array_or_empty (own fee ''discounts'')). \<not> nullish d"
      by auto
    from mapDiscounts_succeeds [OF d, of rt] obtain r
      where "mapDiscounts rt (own fee ''discounts'') = Inr r" by blast
    with n show ?thesis by (simp add: mapSectionItem_def)
  qed
  then have "\<exists>ys. map_exn (mapSectionItem rt) (array_or_empty v) = Inr ys"
    by (rule map_exn_ex)
  then show ?thesis by (auto simp: mapSectionItems_def)
qed

lemma mapFields_succeeds:
  assumes "\<not> nullish g"
    and "\<forall>fee \<in> set (array_or_empty (own g ''items'')).
           \<not> nullish fee \<and> (\<forall>d \<in> set (array_or_empty (own fee ''discounts'')). \<not> nullish d)"
    and "\<forall>d \<in> set (array_or_empty (own g ''miscDiscounts'')). \<not> nullish d"
  shows "\<exists>mapped. mapFields rt g = Inr mapped"
proof -
  from mapSectionItems_succeeds [OF assms(2), of rt] obtain its
    where i: "mapSectionItems rt (own g ''items'') = Inr its" by blast
  from mapDiscounts_succeeds [OF assms(3), of rt] obtain ms
    where m: "mapDiscounts rt (own g ''miscDiscounts'') = Inr ms" by blast
  from assms(1) i m show ?thesis by (simp add: mapFields_def)
qed

text \<open>
  Claim C1. For every raw group (a value with properties, whose fee items, their
  discounts and the misc discounts are values with properties), the group is mapped and
  \<open>buildDetailRows\<close> returns exactly the rows of the specification, in its order; this is
  the \<open>detailRows\<close> of the mapped group. Their number is the number of fee items plus
  the numbers of discounts of all fee items plus the number of misc discounts. Every row
  has a description: a missing one is the em-dash.
\<close>

theorem detail_rows_flattened:
  assumes "\<not> nullish g"
    and "\<forall>fee \<in> set (array_or_empty (own g ''items'')).
           \<not> nullish fee \<and> (\<forall>d \<in> set (array_or_empty (own fee ''discounts'')). \<not> nullish d)"
    and "\<forall>d \<in> set (array_or_empty (own g ''miscDiscounts'')). \<not> nullish d"
  shows "\<exists>mapped m.
      mapFields rt g = Inr mapped
      \<and> buildDetailRows rt mapped = Inr (flatten_spec rt g)
      \<and> mapGroup rt g = Inr m
      \<and> own m ''detailRows'' = JArr (flatten_spec rt g)
      \<and> length (flatten_spec rt g)
          = length (array_or_empty (own g ''items''))
            + sum_list (map (\<lambda>fee. length (array_or_empty (own fee ''discounts'')))
                (array_or_empty (own g ''items'')))
            + length (array_or_empty (own g ''miscDiscounts''))
      \<and> (\<forall>r \<in> set (flatten_spec rt g). truthy (own r ''description''))"
proof -
  from mapFields_succeeds [OF assms, of rt] obtain mapped
    where f: "mapFields rt g = Inr mapped" by blast
  from mapGroup_detailRows [OF f] obtain m
    where m: "mapGroup rt g = Inr m" "own m ''detailRows'' = JArr (flatten_spec rt g)" by blast
  from f m buildDetailRows_mapped [OF f] length_flatten_spec [of rt g]
    flatten_spec_described [of _ rt g]
  show ?thesis by blast
qed

lemma flatten_spec_example:
  "flatten_spec example_runtime example_raw =
     [JObj [(''id'', JStr ''fee-F1''), (''description'', JStr ''Swim''), (''type'', JStr ''Fee''),
            (''amount'', JStr ''$10.00''), (''recordId'', JStr ''F1'')],
      JObj [(''id'', JStr ''disc-D1''), (''description'', JStr ''Promo''),
            (''type'', JStr ''Discount''), (''amount'', JStr ''-$2.50''),
            (''recordId'', JStr ''D1'')],
      JObj [(''id'', JStr ''fee-F2''), (''description'', JStr em_dash), (''type'', JStr ''Fee''),
            (''amount'', JUndefined), (''recordId'', JStr ''F2'')],
      JObj [(''id'', JStr ''disc-misc-D9''), (''description'', JStr em_dash),
            (''type'', JStr ''Discount''), (''amount'', JStr ''-N/A''),
            (''recordId'', JStr ''D9'')]]"
proof -
  have a: "StringToNumber ''2.5'' = Fin (5 / 2)" by code_simp
  have b: "StringToNumber ''N/A'' = NaN" by code_simp
  show ?thesis
    by (simp add: flatten_spec_def example_raw_def array_or_empty_def fee_row_spec_def
        discount_row_spec_def description_or_dash_def formatCurrency_def formatDiscount_def
        a b example_runtime_def get_locale_def get_currency_def)
qed

theorem detail_rows_flattened_witness:
  "\<not> nullish example_raw
   \<and> (\<exists>mapped. mapFields example_runtime example_raw = Inr mapped
        \<and> buildDetailRows example_runtime mapped =
           Inr [JObj [(''id'', JStr ''fee-F1''), (''description'', JStr ''Swim''),
                      (''type'', JStr ''Fee''), (''amount'', JStr ''$10.00''),
                      (''recordId'', JStr ''F1'')],
                JObj [(''id'', JStr ''disc-D1''), (''description'', JStr ''Promo''),
                      (''type'', JStr ''Discount''), (''amount'', JStr ''-$2.50''),
                      (''recordId'', JStr ''D1'')],
                JObj [(''id'', JStr ''fee-F2''), (''description'', JStr em_dash),
                      (''type'', JStr ''Fee''), (''amount'', JUndefined),
                      (''recordId'', JStr ''F2'')],
                JObj [(''id'', JStr ''disc-misc-D9''), (''description'', JStr em_dash),
                      (''type'', JStr ''Discount''), (''amount'', JStr ''-N/A''),
                      (''recordId'', JStr ''D9'')]])"
proof -
  have n: "\<not> nullish example_raw" by (simp add: example_raw_def nullish_def)
  have i: "\<forall>fee \<in> set (array_or_empty (own example_raw ''items'')).
           \<not> nullish fee \<and> (\<forall>d \<in> set (array_or_empty (own fee ''discounts'')). \<not> nullish d)"
    by (simp add: example_raw_def array_or_empty_def nullish_def)
  have d: "\<forall>d \<in> set (array_or_empty (own example_raw ''miscDiscounts'')). \<not> nullish d"
    by (simp add: example_raw_def array_or_empty_def nullish_def)
  from detail_rows_flattened [OF n i d, of example_runtime] n
  show ?thesis by (auto simp: flatten_spec_example)
qed


section \<open>The invariant of the controller\<close>

lemma map_exn_length: "map_exn f xs = Inr ys \<Longrightarrow> length ys = length xs"
  by (induction xs arbitrary: ys) (auto split: sum.splits)

lemma mapGroup_succeeds:
  assumes "well_formed_group g"
  shows "\<exists>m. mapGroup rt g = Inr m"
proof -
  from assms have "\<exists>mapped. mapFields rt g = Inr mapped"
    unfolding well_formed_group_def by (intro mapFields_succeeds) auto
  then obtain mapped where "mapFields rt g = Inr mapped" by blast
  from mapGroup_detailRows [OF this] show ?thesis by blast
qed

lemma payload_mapped:
  assumes "\<forall>g \<in> set gs. well_formed_group g"
  shows "\<exists>ms. map_exn (mapGroup rt) gs = Inr ms \<and> length ms = length gs"
proof -
  have "\<exists>ms. map_exn (mapGroup rt) gs = Inr ms"
    using assms by (intro map_exn_ex) (simp add: mapGroup_succeeds)
  then show ?thesis by (auto dest: map_exn_length)
qed

lemma normalizeError_succeeds:
  assumes "well_formed_error err"
  shows "\<exists>m. normalizeError rt err = Inr m"
proof (cases "opt_prop err ''body''")
  case (JArr es)
  with assms have "\<forall>e \<in> set es. \<not> nullish e"
    by (simp add: well_formed_error_def array_or_empty_def)
  then have "map_exn (\<lambda>e. get_prop e ''message'') es = Inr (map (\<lambda>e. own e ''message'') es)"
    by (intro map_exn_all) (simp add: get_prop_not_nullish)
  with JArr show ?thesis by (simp add: normalizeError_def)
qed (simp_all add: normalizeError_def)

lemma payload_arrival:
  assumes "1 \<le> pageSize s" "\<forall>g \<in> set gs. well_formed_group g"
  shows "\<exists>s'. wiredPayments rt s (JArr gs) err = (None, s')
     \<and> currentPage s' = 1
     \<and> map_exn (mapGroup rt) gs = Inr (groups s')
     \<and> length (groups s') = length gs
     \<and> displayedGroups s' = take (nat (pageSize s)) (groups s')
     \<and> pageSize s' = pageSize s"
proof -
  from payload_mapped [OF assms(2), of rt] obtain ms
    where "map_exn (mapGroup rt) gs = Inr ms" "length ms = length gs" by blast
  with assms(1) show ?thesis
    by (simp add: wiredPayments_cases js_slice_first)
qed

lemma error_delivery:
  assumes "\<not> truthy data" "truthy err" "well_formed_error err"
  shows "\<exists>s'. wiredPayments rt s data err = (None, s')
     \<and> currentPage s' = 1 \<and> groups s' = [] \<and> displayedGroups s' = []
     \<and> normalizeError rt err = Inr (error s')
     \<and> pageSize s' = pageSize s"
proof -
  from normalizeError_succeeds [OF assms(3), of rt] obtain m
    where "normalizeError rt err = Inr m" by blast
  with assms(1,2) show ?thesis
    by (simp add: wiredPayments_cases)
qed

text \<open>
  Claim C4. From any state with a page size of at least 1 and \<open>currentPage\<close> in
  \<open>[1, totalPages]\<close> (the initial state is one), after any sequence of wire deliveries and
  First, Previous, Next and Last actions \<open>currentPage\<close> is again in \<open>[1, totalPages]\<close>,
  where \<open>totalPages = max(1, ceil(groups.length / pageSize))\<close>. The delivery of a
  payload (a list of raw groups) completes, maps every group, sets \<open>currentPage\<close> to 1
  and stores the first page of the mapped list. The delivery of an error completes, sets
  \<open>currentPage\<close> to 1 and leaves no groups and no displayed groups. And whenever a
  delivery of data or of an error completes, \<open>currentPage\<close> is 1 and the displayed slice
  is the first page of the new group list.
\<close>

theorem page_invariant:
  assumes "1 \<le> pageSize s" "1 \<le> currentPage s" "currentPage s \<le> totalPages s"
  shows "1 \<le> currentPage (run rt s evs)
    \<and> currentPage (run rt s evs) \<le> totalPages (run rt s evs)
    \<and> totalPages (run rt s evs)
         = max 1 \<lceil>rat_of_int (int (length (groups (run rt s evs)))) / rat_of_int (pageSize s)\<rceil>
    \<and> (\<forall>gs err. (\<forall>g \<in> set gs. well_formed_group g) \<longrightarrow>
          (\<exists>s'. wiredPayments rt (run rt s evs) (JArr gs) err = (None, s')
             \<and> currentPage s' = 1
             \<and> map_exn (mapGroup rt) gs = Inr (groups s')
             \<and> length (groups s') = length gs
             \<and> displayedGroups s' = take (nat (pageSize s)) (groups s')))
    \<and> (\<forall>data err. \<not> truthy data \<and> truthy err \<and> well_formed_error err \<longrightarrow>
          (\<exists>s'. wiredPayments rt (run rt s evs) data err = (None, s')
             \<and> currentPage s' = 1
             \<and> groups s' = []
             \<and> displayedGroups s' = []
             \<and> normalizeError rt err = Inr (error s')))
    \<and> (\<forall>data err s'.
          wiredPayments rt (run rt s evs) data err = (None, s') \<and> (truthy data \<or> truthy err) \<longrightarrow>
            currentPage s' = 1
            \<and> displayedGroups s' = take (nat (pageSize s)) (groups s')
            \<and> (truthy data \<longrightarrow>
                  (\<exists>gs. data = JArr gs \<and> map_exn (mapGroup rt) gs = Inr (groups s')))
            \<and> (\<not> truthy data \<longrightarrow> groups s' = []))"
proof -
  have ok: "page_ok (run rt s evs)"
    using assms by (intro run_page_ok) (simp add: page_ok_def)
  have ps: "pageSize (run rt s evs) = pageSize s" by (rule run_pageSize)
  have ps1: "1 \<le> pageSize (run rt s evs)" using assms(1) ps by simp
  have arr: "currentPage s' = 1
            \<and> displayedGroups s' = take (nat (pageSize s)) (groups s')
            \<and> (truthy data \<longrightarrow>
                  (\<exists>gs. data = JArr gs \<and> map_exn (mapGroup rt) gs = Inr (groups s')))
            \<and> (\<not> truthy data \<longrightarrow> groups s' = [])"
    if w: "wiredPayments rt (run rt s evs) data err = (None, s')"
      and t: "truthy data \<or> truthy err" for data err s'
    using arrival_resets [OF ps1 w t] by (simp add: ps)
  have pay: "\<exists>s'. wiredPayments rt (run rt s evs) (JArr gs) err = (None, s')
             \<and> currentPage s' = 1
             \<and> map_exn (mapGroup rt) gs = Inr (groups s')
             \<and> length (groups s') = length gs
             \<and> displayedGroups s' = take (nat (pageSize s)) (groups s')"
    if "\<forall>g \<in> set gs. well_formed_group g" for gs err
    using payload_arrival [OF ps1 that, of rt err] by (auto simp: ps)
  have er: "\<exists>s'. wiredPayments rt (run rt s evs) data err = (None, s')
             \<and> currentPage s' = 1
             \<and> groups s' = []
             \<and> displayedGroups s' = []
             \<and> normalizeError rt err = Inr (error s')"
    if "\<not> truthy data \<and> truthy err \<and> well_formed_error err" for data err
    using error_delivery [of data err rt "run rt s evs"] that by auto
  from ok ps have "1 \<le> currentPage (run rt s evs)
    \<and> currentPage (run rt s evs) \<le> totalPages (run rt s evs)
    \<and> totalPages (run rt s evs)
         = max 1 \<lceil>rat_of_int (int (length (groups (run rt s evs)))) / rat_of_int (pageSize s)\<rceil>"
    by (simp add: page_ok_def totalPages_def)
  with arr pay er show ?thesis by blast
qed


theorem page_invariant_witness:
  "1 \<le> pageSize initial \<and> 1 \<le> currentPage initial \<and> currentPage initial \<le> totalPages initial
   \<and> currentPage (run example_runtime initial
        [Wire example_payload JUndefined, Next, Last, Next]) = 3
   \<and> totalPages (run example_runtime initial
        [Wire example_payload JUndefined, Next, Last, Next]) = 3
   \<and> wiredPayments example_runtime initial
        (JArr (map example_group [''a'', ''b'', ''c'', ''d'', ''e'', ''f'', ''g''])) JUndefined
      = (None, \<lparr> groups = map example_mapped [''a'', ''b'', ''c'', ''d'', ''e'', ''f'', ''g''],
                 displayedGroups = map example_mapped [''a'', ''b'', ''c''],
                 error = JUndefined, loading = False,
                 activeSectionNames = JArr [], pageSize = 3, currentPage = 1 \<rparr>)
   \<and> \<not> truthy JUndefined \<and> truthy example_error
   \<and> wiredPayments example_runtime
        (run example_runtime initial [Wire example_payload JUndefined, Next, Last, Next])
        JUndefined example_error
      = (None, \<lparr> groups = [], displayedGroups = [], error = JStr ''C'', loading = False,
                 activeSectionNames = JArr [], pageSize = 3, currentPage = 1 \<rparr>)"
proof -
  let ?evs = "[Wire example_payload JUndefined, Next, Last, Next]"
  let ?gs = "map example_group [''a'', ''b'', ''c'', ''d'', ''e'', ''f'', ''g'']"
  have h1: "1 \<le> pageSize initial" and h2: "1 \<le> currentPage initial"
    and h3: "currentPage initial \<le> totalPages initial"
    by (simp_all add: initial_def totalPages_def)
  have wf: "\<forall>g \<in> set ?gs. well_formed_group g"
    by (simp add: well_formed_group_def example_group_def nullish_def array_or_empty_def)
  have we: "\<not> truthy JUndefined \<and> truthy example_error \<and> well_formed_error example_error"
    by (simp add: well_formed_error_def example_error_def array_or_empty_def)
  have w: "wiredPayments example_runtime initial (JArr ?gs) JUndefined
      = (None, \<lparr> groups = map example_mapped [''a'', ''b'', ''c'', ''d'', ''e'', ''f'', ''g''],
                 displayedGroups = map example_mapped [''a'', ''b'', ''c''],
                 error = JUndefined, loading = False,
                 activeSectionNames = JArr [], pageSize = 3, currentPage = 1 \<rparr>)"
    by (simp add: wiredPayments_cases mapGroup_example js_slice_def initial_def)
  have e: "wiredPayments example_runtime (run example_runtime initial ?evs)
        JUndefined example_error
      = (None, \<lparr> groups = [], displayedGroups = [], error = JStr ''C'', loading = False,
                 activeSectionNames = JArr [], pageSize = 3, currentPage = 1 \<rparr>)"
    by (simp add: example_run wiredPayments_cases normalizeError_def example_error_def)
  from page_invariant [OF h1 h2 h3, of example_runtime ?evs]
    page_invariant [OF h1 h2 h3, of example_runtime "[]"] h1 h2 h3 wf we w e
  show ?thesis by (simp add: example_run totalPages_def ceiling_7_3)
qed

section \<open>Properties of the date formatter\<close>








lemma truncate_of_int [simp]: "truncate (rat_of_int k) = k"
  by (simp add: truncate_def)

lemma truncate_of_int_minus_1 [simp]: "truncate (rat_of_int k - 1) = k - 1"
  using truncate_of_int [of "k - 1"] by simp

lemma truncate_1 [simp]: "truncate 1 = 1" "truncate 0 = 0"
  using truncate_of_int [of 1] truncate_of_int [of 0] by simp_all


























end
